theory Spec2Isabelle
  imports Complex_Main "HOL-Library.AList" "HOL-Library.Char_ord" "HOL-Library.List_Lexorder"
begin

section \<open>Data model (package models)\<close>

text \<open>
  A \<open>uuid.UUID\<close> is represented by its canonical text, the result of \<open>String()\<close>;
  a \<open>time.Time\<close> by an integer instant.  Pointer-typed string fields
  (\<open>*string\<close>) are options: \<open>None\<close> is the nil pointer.
\<close>

type_synonym uuid = string
type_synonym time = int

record Customer =
  c_ID :: uuid
  c_Name :: string
  c_ContactPerson :: "string option"
  c_ContactPhone :: "string option"
  c_ContactRole :: "string option"

record FollowRecord =
  fr_ID :: uuid
  fr_UserID :: string
  fr_CustomerID :: uuid
  fr_CustomerName :: string
  fr_ContactPerson :: "string option"
  fr_ContactPhone :: "string option"
  fr_ContactRole :: "string option"
  fr_FollowTime :: time
  fr_FollowMethod :: "string option"
  fr_FollowContent :: "string option"
  fr_FollowGoal :: "string option"
  fr_FollowResult :: "string option"
  fr_RiskContent :: "string option"
  fr_NextPlan :: "string option"

text \<open>The state and stage constants are Go strings; they stay strings here.\<close>

definition StateCustomerName :: string where "StateCustomerName = ''CUSTOMER_NAME''"
definition StateFollowMethod :: string where "StateFollowMethod = ''FOLLOW_METHOD''"
definition StateFollowContent :: string where "StateFollowContent = ''FOLLOW_CONTENT''"
definition StateFollowGoal :: string where "StateFollowGoal = ''FOLLOW_GOAL''"
definition StateFollowResult :: string where "StateFollowResult = ''FOLLOW_RESULT''"
definition StateNextPlan :: string where "StateNextPlan = ''NEXT_PLAN''"
definition StateComplete :: string where "StateComplete = ''COMPLETE''"

definition StatusCollecting :: string where "StatusCollecting = ''COLLECTING''"
definition StatusAskingOtherCustomers :: string where
  "StatusAskingOtherCustomers = ''ASKING_OTHER_CUSTOMERS''"
definition StatusConfirming :: string where "StatusConfirming = ''CONFIRMING''"
definition StatusOutputting :: string where "StatusOutputting = ''OUTPUTTING''"
definition StatusExit :: string where "StatusExit = ''EXIT''"

definition SemanticStrong :: string where "SemanticStrong = ''STRONG''"
definition SemanticNone :: string where "SemanticNone = ''NONE''"

text \<open>\<open>StateFieldMap\<close> and \<open>GetFieldByState\<close>: a missing key reads as the empty string.\<close>

definition StateFieldMap :: "(string \<times> string) list" where
  "StateFieldMap =
    [(StateCustomerName, ''customer_name''),
     (StateFollowMethod, ''follow_method''),
     (StateFollowContent, ''follow_content''),
     (StateFollowGoal, ''follow_goal''),
     (StateFollowResult, ''follow_result''),
     (StateNextPlan, ''next_plan'')]"

definition GetFieldByState :: "string \<Rightarrow> string" where
  "GetFieldByState state = (case map_of StateFieldMap state of None \<Rightarrow> [] | Some f \<Rightarrow> f)"

section \<open>Rule engine (package engine)\<close>

text \<open>
  A Go \<open>map\<close> is an association list with distinct keys.  The order of the list stands
  for the order in which \<open>range\<close> happens to visit the map, which the Go runtime leaves
  unspecified and randomises; it is therefore part of the input of every function that
  ranges over a map.
\<close>

definition unset :: "string option \<Rightarrow> bool" where
  "unset p = (case p of None \<Rightarrow> True | Some s \<Rightarrow> s = [])"

definition DetermineState :: "Customer option \<Rightarrow> FollowRecord option \<Rightarrow> string" where
  "DetermineState customer followRecord =
    (case customer of
       None \<Rightarrow> StateCustomerName
     | Some c \<Rightarrow>
        (case followRecord of
           None \<Rightarrow> StateFollowContent
         | Some r \<Rightarrow>
            if unset (fr_FollowContent r) then StateFollowContent
            else if unset (fr_FollowGoal r) then StateFollowGoal
            else if unset (fr_FollowResult r) then StateFollowResult
            else if unset (fr_NextPlan r) then StateNextPlan
            else if unset (fr_FollowMethod r) then StateFollowMethod
            else StateComplete))"

definition DetermineStatus :: "(uuid \<times> string) list \<Rightarrow> string" where
  "DetermineStatus customerStates =
    (if length customerStates = 0 then StatusAskingOtherCustomers
     else if list_ex (\<lambda>(customerID, state). state \<noteq> StateComplete) customerStates
       then StatusCollecting
     else StatusConfirming)"

definition stateOrder :: "string list" where
  "stateOrder =
    [StateCustomerName, StateFollowContent, StateFollowGoal,
     StateFollowResult, StateNextPlan, StateFollowMethod]"

text \<open>The inner loop of step 3: the first customer visited whose state is the target.\<close>

fun firstWithState :: "string \<Rightarrow> (uuid \<times> string) list \<Rightarrow> uuid option" where
  "firstWithState targetState [] = None"
| "firstWithState targetState ((customerID, state) # rest) =
     (if state = targetState then Some customerID else firstWithState targetState rest)"

text \<open>The outer loop of step 3, over the state order.\<close>

fun firstInStateOrder :: "string list \<Rightarrow> (uuid \<times> string) list \<Rightarrow> uuid option" where
  "firstInStateOrder [] customerStates = None"
| "firstInStateOrder (targetState # later) customerStates =
     (case firstWithState targetState customerStates of
        Some customerID \<Rightarrow> Some customerID
      | None \<Rightarrow> firstInStateOrder later customerStates)"

definition focusStillIncomplete :: "uuid option \<Rightarrow> (uuid \<times> string) list \<Rightarrow> bool" where
  "focusStillIncomplete currentFocus customerStates =
    (case currentFocus of
       None \<Rightarrow> False
     | Some f \<Rightarrow>
        (case map_of customerStates f of
           None \<Rightarrow> False
         | Some state \<Rightarrow> state \<noteq> StateComplete))"

definition SelectFocusCustomer ::
  "uuid option \<Rightarrow> uuid option \<Rightarrow> (uuid \<times> string) list \<Rightarrow> string \<Rightarrow> uuid option" where
  "SelectFocusCustomer currentFocus mentionedCustomer customerStates status =
    (if status = StatusConfirming then
       (if mentionedCustomer \<noteq> None then mentionedCustomer else currentFocus)
     else if status = StatusAskingOtherCustomers \<and> mentionedCustomer \<noteq> None
       then mentionedCustomer
     else if mentionedCustomer \<noteq> None then mentionedCustomer
     else if focusStillIncomplete currentFocus customerStates then currentFocus
     else firstInStateOrder stateOrder customerStates)"

definition CanWriteRisk :: "string \<Rightarrow> string \<Rightarrow> bool" where
  "CanWriteRisk semanticRelevance currentState =
    (if semanticRelevance \<noteq> SemanticStrong then False
     else currentState = StateFollowResult \<or> currentState = StateNextPlan)"

definition fieldStateMap :: "(string \<times> string) list" where
  "fieldStateMap =
    [(''customer_name'', StateCustomerName),
     (''follow_content'', StateFollowContent),
     (''follow_goal'', StateFollowGoal),
     (''follow_result'', StateFollowResult),
     (''next_plan'', StateNextPlan),
     (''follow_method'', StateFollowMethod)]"

text \<open>\<open>HandleFieldModification\<close> returns the state of the field (the empty string for a
  field it does not know) and always the nil list of fields to reset.\<close>

definition HandleFieldModification :: "string \<Rightarrow> string \<times> string list" where
  "HandleFieldModification modifiedField =
    ((case map_of fieldStateMap modifiedField of None \<Rightarrow> [] | Some s \<Rightarrow> s), [])"

section \<open>Entity normalization post-processing (package ai)\<close>




section \<open>JSON values and Go maps\<close>

text \<open>
  A decoded JSON value, which is also what a Go \<open>interface{}\<close> holds after
  \<open>json.Unmarshal\<close>.  A number carries the text that \<open>%v\<close> prints for it.  The members
  of an object are listed in some order: the columns that store JSON are \<open>JSONB\<close>, and a
  Go map has no order either.
\<close>

datatype json =
  JNull
| JBool bool
| JNum string
| JStr string
| JArr "json list"
| JObj "(string \<times> json) list"

text \<open>\<open>map[string]interface{}\<close> and \<open>map[string]map[string]interface{}\<close>.  An inner map
  is \<open>None\<close> when it is the nil map, which has no entries and which \<open>json.Marshal\<close>
  writes as \<open>null\<close>, and \<open>Some\<close> of its entries otherwise.\<close>

type_synonym fields = "(string \<times> json) list"
type_synonym pending = "(string \<times> fields option) list"

text \<open>The entries of an inner map that is read: \<open>len\<close>, \<open>range\<close> and indexing treat the nil
  map as the empty one.\<close>

definition entriesOf :: "fields option \<Rightarrow> fields" where
  "entriesOf d = (case d of None \<Rightarrow> [] | Some kvs \<Rightarrow> kvs)"

text \<open>Reading \<open>m[k]\<close> of a map of maps: the nil map when the key is absent.\<close>

definition getData :: "pending \<Rightarrow> string \<Rightarrow> fields" where
  "getData m k = (case map_of m k of None \<Rightarrow> [] | Some d \<Rightarrow> entriesOf d)"

text \<open>\<open>if m[k] == nil { m[k] = make(map[string]interface{}) }\<close>\<close>

definition ensureEntry :: "pending \<Rightarrow> string \<Rightarrow> pending" where
  "ensureEntry m k =
    (case map_of m k of
       Some (Some d) \<Rightarrow> m
     | _ \<Rightarrow> AList.update k (Some []) m)"

text \<open>\<open>m[k][f] = v\<close>, after the entry has been ensured.\<close>

definition setField :: "pending \<Rightarrow> string \<Rightarrow> string \<Rightarrow> json \<Rightarrow> pending" where
  "setField m k f v = AList.update k (Some (AList.update f v (getData m k))) m"

text \<open>The entries of a JSON object stored into a Go map one after the other: a repeated
  key keeps its last value.\<close>

definition goMap :: "(string \<times> 'a) list \<Rightarrow> (string \<times> 'a) list" where
  "goMap kvs = fold (\<lambda>kv m. AList.update (fst kv) (snd kv) m) kvs []"

text \<open>\<open>fmt.Sprintf("%v", v)\<close> on a decoded value (a decoded object has distinct keys,
  which \<open>%v\<close> prints in sorted order).\<close>

fun joinWith :: "string \<Rightarrow> string list \<Rightarrow> string" where
  "joinWith sep [] = []"
| "joinWith sep [x] = x"
| "joinWith sep (x # y # rest) = x @ sep @ joinWith sep (y # rest)"

fun fmt_v :: "json \<Rightarrow> string" where
  "fmt_v JNull = ''<nil>''"
| "fmt_v (JBool b) = (if b then ''true'' else ''false'')"
| "fmt_v (JNum s) = s"
| "fmt_v (JStr s) = s"
| "fmt_v (JArr xs) = ''['' @ joinWith '' '' (map fmt_v xs) @ '']''"
| "fmt_v (JObj kvs) =
     ''map['' @ joinWith '' '' (map (\<lambda>kv. fst kv @ '':'' @ fmt_v (snd kv)) (sort_key fst kvs))
       @ '']''"

text \<open>\<open>json.Unmarshal\<close> into \<open>map[string]interface{}\<close>: an object decodes, \<open>null\<close> leaves
  the map nil, anything else is a type error.\<close>

definition unmarshalFlat :: "json \<Rightarrow> fields option" where
  "unmarshalFlat j =
    (case j of JObj kvs \<Rightarrow> Some (goMap kvs) | JNull \<Rightarrow> Some [] | _ \<Rightarrow> None)"

text \<open>\<open>json.Unmarshal\<close> into \<open>map[string]map[string]interface{}\<close>: every member must be an
  object or \<open>null\<close>; any other member makes the call return a type error.\<close>

definition isObjOrNull :: "json \<Rightarrow> bool" where
  "isObjOrNull v = (case v of JObj kvs \<Rightarrow> True | JNull \<Rightarrow> True | _ \<Rightarrow> False)"

definition innerMap :: "json \<Rightarrow> fields option" where
  "innerMap v = (case v of JObj kvs \<Rightarrow> Some (goMap kvs) | _ \<Rightarrow> None)"

definition unmarshalNested :: "json \<Rightarrow> pending option" where
  "unmarshalNested j =
    (case j of
       JObj kvs \<Rightarrow>
         if list_all (\<lambda>kv. isObjOrNull (snd kv)) kvs
         then Some (goMap (map (\<lambda>kv. (fst kv, innerMap (snd kv))) kvs))
         else None
     | JNull \<Rightarrow> Some []
     | _ \<Rightarrow> None)"

text \<open>\<open>json.Marshal\<close> of the two map types: objects with their keys sorted, \<open>null\<close> for a
  nil inner map.\<close>

definition marshalFields :: "fields \<Rightarrow> json" where
  "marshalFields d = JObj (sort_key fst d)"

definition marshalInner :: "fields option \<Rightarrow> json" where
  "marshalInner d = (case d of None \<Rightarrow> JNull | Some kvs \<Rightarrow> marshalFields kvs)"

definition marshalPending :: "pending \<Rightarrow> json" where
  "marshalPending m = JObj (sort_key fst (map (\<lambda>cd. (fst cd, marshalInner (snd cd))) m))"

section \<open>Runtime snapshot\<close>

text \<open>
  \<open>models.RuntimeState\<close> as it is stored in \<open>dialogs.runtime_snapshot\<close>: the scalar
  members decoded, the member \<open>pending_updates\<close> as the raw JSON value (\<open>None\<close> when the
  member is absent, which is how \<open>omitempty\<close> writes an empty map).
\<close>

record RuntimeState =
  rs_SessionID :: uuid
  rs_FocusCustomerID :: "uuid option"
  rs_State :: string
  rs_Status :: string
  rs_PendingUpdates :: "json option"
  rs_PendingReconfirm :: bool

text \<open>\<open>TurnOrchestrator.loadPendingUpdatesFromSnapshot\<close> (the error it can return is that of
  decoding the snapshot itself, which a stored \<open>RuntimeState\<close> has passed).\<close>

definition loadPendingUpdatesFromSnapshot :: "RuntimeState \<Rightarrow> pending" where
  "loadPendingUpdatesFromSnapshot snapshot =
    (case rs_PendingUpdates snapshot of
       None \<Rightarrow> []
     | Some raw \<Rightarrow>
        if raw = JNull then []
        else
          (case unmarshalNested raw of
             Some newFormat \<Rightarrow>
               if length newFormat > 0 then newFormat
               else
                 (case unmarshalFlat raw of
                    Some flatFormat \<Rightarrow>
                      (case rs_FocusCustomerID snapshot of
                         Some focus \<Rightarrow>
                           if length flatFormat > 0 then [(focus, Some flatFormat)] else []
                       | None \<Rightarrow> [])
                  | None \<Rightarrow> [])
           | None \<Rightarrow>
               (case unmarshalFlat raw of
                  Some flatFormat \<Rightarrow>
                    (case rs_FocusCustomerID snapshot of
                       Some focus \<Rightarrow>
                           if length flatFormat > 0 then [(focus, Some flatFormat)] else []
                     | None \<Rightarrow> [])
                | None \<Rightarrow> [])))"

text \<open>\<open>OutputWorker.loadPendingUpdatesFromSnapshot\<close>: the same steps, nil for empty.\<close>

definition worker_loadPendingUpdatesFromSnapshot :: "RuntimeState \<Rightarrow> pending" where
  "worker_loadPendingUpdatesFromSnapshot snapshot =
    (case rs_PendingUpdates snapshot of
       None \<Rightarrow> []
     | Some raw \<Rightarrow>
        if raw = JNull then []
        else if (case unmarshalNested raw of Some newFormat \<Rightarrow> length newFormat > 0 | None \<Rightarrow> False)
          then the (unmarshalNested raw)
        else if (case unmarshalFlat raw of Some flatFormat \<Rightarrow> length flatFormat > 0 | None \<Rightarrow> False)
                \<and> rs_FocusCustomerID snapshot \<noteq> None
          then [(the (rs_FocusCustomerID snapshot), Some (the (unmarshalFlat raw)))]
        else [])"

text \<open>The (customer, field, value) triples a map of maps holds.\<close>

definition triples :: "pending \<Rightarrow> (string \<times> string \<times> json) set" where
  "triples m = {(c, f, v). \<exists>d. map_of m c = Some (Some d) \<and> map_of d f = Some v}"

section \<open>Database, transactions and collaborators\<close>

text \<open>A returned Go \<open>error\<close>, or a run-time panic (a nil pointer dereference).\<close>

datatype error = Err string | Panic string

record Session =
  s_ID :: uuid
  s_UserID :: string
  s_Status :: string
  s_EndedAt :: "time option"

record Dialog =
  d_ID :: uuid
  d_SessionID :: uuid
  d_State :: string
  d_Status :: string
  d_TurnIndex :: int
  d_FocusCustomerID :: "uuid option"
  d_IsFirstFocus :: bool
  d_SemanticRelevance :: "string option"
  d_PendingUpdates :: json
  d_RuntimeSnapshot :: RuntimeState
  d_TurnContent :: "string option"
  d_CreatedAt :: time

text \<open>The four tables the core uses, each in the order its rows were inserted.\<close>

record db =
  db_customers :: "Customer list"
  db_sessions :: "Session list"
  db_dialogs :: "Dialog list"
  db_follow_records :: "FollowRecord list"

text \<open>The statements of the repository that write.\<close>

datatype stmt =
  InsertCustomer Customer
| UpdateCustomerRow Customer
| InsertSession Session
| UpdateSessionRow Session
| InsertDialog Dialog
| DeleteDialogsOf uuid
| DeleteSessionRow uuid
| InsertFollowRecord FollowRecord
| UpdateFollowRecordRow FollowRecord

text \<open>\<open>UPDATE follow_records SET customer_name, contact_*, follow_* ... WHERE id = :id\<close>: the
  statement leaves \<open>customer_id\<close> and \<open>user_id\<close> of the row as they are.\<close>

definition updateFollowRow :: "FollowRecord \<Rightarrow> FollowRecord \<Rightarrow> FollowRecord" where
  "updateFollowRow new old =
    (if fr_ID old = fr_ID new
     then new\<lparr>fr_UserID := fr_UserID old, fr_CustomerID := fr_CustomerID old\<rparr>
     else old)"

fun run :: "stmt \<Rightarrow> db \<Rightarrow> db" where
  "run (InsertCustomer c) d = d\<lparr>db_customers := db_customers d @ [c]\<rparr>"
| "run (UpdateCustomerRow c) d =
     d\<lparr>db_customers := map (\<lambda>old. if c_ID old = c_ID c then c else old) (db_customers d)\<rparr>"
| "run (InsertSession s) d = d\<lparr>db_sessions := db_sessions d @ [s]\<rparr>"
| "run (UpdateSessionRow s) d =
     d\<lparr>db_sessions :=
         map (\<lambda>old. if s_ID old = s_ID s then old\<lparr>s_Status := s_Status s, s_EndedAt := s_EndedAt s\<rparr>
                     else old) (db_sessions d)\<rparr>"
| "run (InsertDialog x) d = d\<lparr>db_dialogs := db_dialogs d @ [x]\<rparr>"
| "run (DeleteDialogsOf sid) d =
     d\<lparr>db_dialogs := filter (\<lambda>x. d_SessionID x \<noteq> sid) (db_dialogs d)\<rparr>"
| "run (DeleteSessionRow sid) d =
     d\<lparr>db_sessions := filter (\<lambda>s. s_ID s \<noteq> sid) (db_sessions d)\<rparr>"
| "run (InsertFollowRecord r) d = d\<lparr>db_follow_records := db_follow_records d @ [r]\<rparr>"
| "run (UpdateFollowRecordRow r) d =
     d\<lparr>db_follow_records := map (updateFollowRow r) (db_follow_records d)\<rparr>"

record OutputTask =
  t_SessionID :: uuid
  t_UserID :: string
  t_CreatedAt :: time

text \<open>
  The world outside one call: the committed database, the statements the open
  transaction has executed and not yet committed, and the worker's task queue.
\<close>

record world =
  w_db :: db
  w_tx :: "stmt list"
  w_queue :: "OutputTask list"

text \<open>A \<open>context.Context\<close> either carries the transaction under \<open>txKey\<close> or does not.\<close>

datatype ctx = TxCtx | PlainCtx

text \<open>\<open>getExecer\<close>: with the transaction in the context a statement runs in it and a query
  sees its statements; without, both go to the pool, that is to the committed data.\<close>

definition getExecer :: "ctx \<Rightarrow> world \<Rightarrow> db" where
  "getExecer c w = (case c of TxCtx \<Rightarrow> fold run (w_tx w) (w_db w) | PlainCtx \<Rightarrow> w_db w)"

definition exec :: "ctx \<Rightarrow> stmt \<Rightarrow> world \<Rightarrow> world" where
  "exec c st w =
    (case c of
       TxCtx \<Rightarrow> w\<lparr>w_tx := w_tx w @ [st]\<rparr>
     | PlainCtx \<Rightarrow> w\<lparr>w_db := run st (w_db w)\<rparr>)"

record CustomerRefItem =
  cr_CustomerName :: string
  cr_FieldUpdates :: fields

record SemanticAnalysisResult =
  sem_SemanticRelevance :: string
  sem_CustomerRefs :: "CustomerRefItem list"

text \<open>
  Everything the core is handed from outside, fixed for one call:
  \<^item> \<open>dbFails\<close>: whether the repository call of that name, on that key, comes back with an
    I/O or constraint error;
  \<^item> \<open>newUUID\<close>: what \<open>uuid.New()\<close> returns for the row created for that purpose and key;
  \<^item> \<open>now\<close>: \<open>time.Now()\<close> and the database's \<open>NOW()\<close>;
  \<^item> \<open>parseUUID\<close>, \<open>parseDate\<close>, \<open>parseRFC3339\<close>, \<open>formatDate\<close>: \<open>uuid.Parse\<close>,
    \<open>time.ParseInLocation("2006-01-02", _, time.Local)\<close>, \<open>time.Parse(time.RFC3339, _)\<close>
    and \<open>Format("2006-01-02")\<close>;
  \<^item> the operations of \<open>ai.Client\<close>, \<open>None\<close> standing for a returned error; the dialogue and
    summary operations take the data their prompt is built from;
  \<^item> \<open>normalizeEntities\<close>: the outcome of \<open>Normalizer.NormalizeEntities\<close>, which only reads
    the database and asks the model: an error or the merge map;
  \<^item> the configured messages and the two reply texts the source spells out.
\<close>

record env =
  dbFails :: "string \<Rightarrow> string \<Rightarrow> bool"
  newUUID :: "string \<Rightarrow> string \<Rightarrow> uuid"
  now :: time
  parseUUID :: "string \<Rightarrow> uuid option"
  parseDate :: "string \<Rightarrow> time option"
  parseRFC3339 :: "string \<Rightarrow> time option"
  formatDate :: "time \<Rightarrow> string"
  aiIsCustomerFollowRelated :: "string \<Rightarrow> bool option"
  aiIsUserConfirmation :: "string \<Rightarrow> bool option"
  aiIsUserNoMoreCustomers :: "string \<Rightarrow> bool option"
  aiSemanticAnalysis ::
    "string \<Rightarrow> string \<Rightarrow> string \<Rightarrow> string \<Rightarrow> string \<Rightarrow> SemanticAnalysisResult option"
  aiGenerateDialogue ::
    "string \<Rightarrow> string \<Rightarrow> string \<Rightarrow> string \<Rightarrow> fields \<Rightarrow> string \<Rightarrow> string \<Rightarrow> string option"
  aiSummarizeCustomerInfo :: "fields \<Rightarrow> string option"
  normalizeEntities :: "uuid \<Rightarrow> (uuid \<times> uuid) list option"
  askingOtherCustomers :: string
  outputtingConfirm :: string
  outputtingEnded :: string
  outputtingEndedDefault :: string
  replyFailedText :: string

section \<open>Repository (package repository)\<close>

definition GetCustomer :: "env \<Rightarrow> ctx \<Rightarrow> world \<Rightarrow> uuid \<Rightarrow> error + Customer option" where
  "GetCustomer e c w customerID =
    (if dbFails e ''GetCustomer'' customerID then Inl (Err ''get customer'')
     else Inr (find (\<lambda>x. c_ID x = customerID) (db_customers (getExecer c w))))"

definition GetCustomerByName :: "env \<Rightarrow> ctx \<Rightarrow> world \<Rightarrow> string \<Rightarrow> error + Customer option" where
  "GetCustomerByName e c w name =
    (if dbFails e ''GetCustomerByName'' name then Inl (Err ''get customer by name'')
     else Inr (find (\<lambda>x. c_Name x = name) (db_customers (getExecer c w))))"

definition CreateCustomer :: "env \<Rightarrow> ctx \<Rightarrow> Customer \<Rightarrow> world \<Rightarrow> error + world" where
  "CreateCustomer e c customer w =
    (if dbFails e ''CreateCustomer'' (c_Name customer) then Inl (Err ''create customer'')
     else Inr (exec c (InsertCustomer customer) w))"

definition UpdateCustomer :: "env \<Rightarrow> ctx \<Rightarrow> Customer \<Rightarrow> world \<Rightarrow> error + world" where
  "UpdateCustomer e c customer w =
    (if dbFails e ''UpdateCustomer'' (c_ID customer) then Inl (Err ''update customer'')
     else Inr (exec c (UpdateCustomerRow customer) w))"

text \<open>\<open>... WHERE user_id = $1 AND status != 'EXIT' AND ended_at IS NULL ORDER BY created_at
  DESC LIMIT 1\<close>: the row created last.\<close>

definition GetActiveSession :: "env \<Rightarrow> ctx \<Rightarrow> world \<Rightarrow> string \<Rightarrow> error + Session option" where
  "GetActiveSession e c w userID =
    (if dbFails e ''GetActiveSession'' userID then Inl (Err ''get active session'')
     else Inr (find (\<lambda>s. s_UserID s = userID \<and> s_Status s \<noteq> StatusExit \<and> s_EndedAt s = None)
                 (rev (db_sessions (getExecer c w)))))"

definition CreateSession :: "env \<Rightarrow> ctx \<Rightarrow> Session \<Rightarrow> world \<Rightarrow> error + world" where
  "CreateSession e c session w =
    (if dbFails e ''CreateSession'' (s_ID session) then Inl (Err ''create session'')
     else Inr (exec c (InsertSession session) w))"

definition UpdateSession :: "env \<Rightarrow> ctx \<Rightarrow> Session \<Rightarrow> world \<Rightarrow> error + world" where
  "UpdateSession e c session w =
    (if dbFails e ''UpdateSession'' (s_ID session) then Inl (Err ''update session'')
     else Inr (exec c (UpdateSessionRow session) w))"

text \<open>\<open>... WHERE session_id = $1 ORDER BY turn_index ASC\<close>\<close>

definition GetDialogsBySession :: "env \<Rightarrow> ctx \<Rightarrow> world \<Rightarrow> uuid \<Rightarrow> error + Dialog list" where
  "GetDialogsBySession e c w sessionID =
    (if dbFails e ''GetDialogsBySession'' sessionID then Inl (Err ''get dialogs by session'')
     else Inr (sort_key d_TurnIndex
                 (filter (\<lambda>x. d_SessionID x = sessionID) (db_dialogs (getExecer c w)))))"

text \<open>\<open>... ORDER BY turn_index DESC LIMIT 1\<close>\<close>

definition lastOption :: "'a list \<Rightarrow> 'a option" where
  "lastOption xs = (case rev xs of [] \<Rightarrow> None | x # rest \<Rightarrow> Some x)"

definition GetLatestDialog :: "env \<Rightarrow> ctx \<Rightarrow> world \<Rightarrow> uuid \<Rightarrow> error + Dialog option" where
  "GetLatestDialog e c w sessionID =
    (if dbFails e ''GetLatestDialog'' sessionID then Inl (Err ''get latest dialog'')
     else Inr (lastOption (sort_key d_TurnIndex
                 (filter (\<lambda>x. d_SessionID x = sessionID) (db_dialogs (getExecer c w))))))"

definition GetLatestFocusCustomerIDFromDialogs ::
  "env \<Rightarrow> ctx \<Rightarrow> world \<Rightarrow> uuid \<Rightarrow> error + uuid option" where
  "GetLatestFocusCustomerIDFromDialogs e c w sessionID =
    (if dbFails e ''GetLatestFocusCustomerIDFromDialogs'' sessionID
       then Inl (Err ''get latest focus from dialogs'')
     else Inr (case lastOption (sort_key d_TurnIndex
                 (filter (\<lambda>x. d_SessionID x = sessionID \<and> d_FocusCustomerID x \<noteq> None)
                    (db_dialogs (getExecer c w)))) of
                 None \<Rightarrow> None
               | Some x \<Rightarrow> d_FocusCustomerID x))"

text \<open>The insert leaves \<open>created_at\<close> to the column default \<open>NOW()\<close>.\<close>

definition CreateDialog :: "env \<Rightarrow> ctx \<Rightarrow> Dialog \<Rightarrow> world \<Rightarrow> error + world" where
  "CreateDialog e c dialog w =
    (if dbFails e ''CreateDialog'' (d_SessionID dialog) then Inl (Err ''create dialog'')
     else Inr (exec c (InsertDialog (dialog\<lparr>d_CreatedAt := now e\<rparr>)) w))"




definition GetLatestFollowRecord ::
  "env \<Rightarrow> ctx \<Rightarrow> world \<Rightarrow> uuid \<Rightarrow> error + FollowRecord option" where
  "GetLatestFollowRecord e c w customerID =
    (if dbFails e ''GetLatestFollowRecord'' customerID then Inl (Err ''get latest follow record'')
     else Inr (lastOption (sort_key fr_FollowTime
                 (filter (\<lambda>r. fr_CustomerID r = customerID) (db_follow_records (getExecer c w))))))"

definition CreateFollowRecord :: "env \<Rightarrow> ctx \<Rightarrow> FollowRecord \<Rightarrow> world \<Rightarrow> error + world" where
  "CreateFollowRecord e c record w =
    (if dbFails e ''CreateFollowRecord'' (fr_CustomerID record) then Inl (Err ''create follow record'')
     else Inr (exec c (InsertFollowRecord record) w))"


text \<open>
  \<open>WithTx\<close>: begin, run the function with the transaction in its context, roll back when
  it returns an error or panics, commit otherwise.  Rolling back drops the statements
  executed in the transaction; committing runs them on the committed data.
\<close>

definition WithTx ::
  "env \<Rightarrow> (world \<Rightarrow> (error + 'a) \<times> world) \<Rightarrow> world \<Rightarrow> (error + 'a) \<times> world" where
  "WithTx e fn w =
    (if dbFails e ''BeginTxx'' [] then (Inl (Err ''begin transaction''), w)
     else
       (case fn (w\<lparr>w_tx := []\<rparr>) of
          (Inl err, w') \<Rightarrow> (Inl err, w'\<lparr>w_tx := []\<rparr>)
        | (Inr r, w') \<Rightarrow>
            if dbFails e ''Commit'' [] then (Inl (Err ''commit transaction''), w'\<lparr>w_tx := []\<rparr>)
            else (Inr r, w'\<lparr>w_db := fold run (w_tx w') (w_db w'), w_tx := []\<rparr>)))"

section \<open>Turn orchestrator (package orchestrator)\<close>

record RuntimeContext =
  rt_SessionID :: uuid
  rt_TurnIndex :: int
  rt_State :: string
  rt_Status :: string
  rt_FocusCustomerID :: "uuid option"
  rt_MentionedCustomerID :: "uuid option"
  rt_SemanticRelevance :: string
  rt_PendingUpdates :: pending
  rt_IsFirstFocus :: bool
  rt_PendingReconfirm :: bool

definition uuid_Nil :: uuid where
  "uuid_Nil = ''00000000-0000-0000-0000-000000000000''"

definition collectingLike :: "string \<Rightarrow> bool" where
  "collectingLike status =
    (status = StatusCollecting \<or> status = StatusConfirming \<or> status = StatusAskingOtherCustomers)"

text \<open>The body of the loop of \<open>buildFollowRecordFromCollectedData\<close>, for one entry.\<close>

definition applyCollected :: "env \<Rightarrow> string \<times> json \<Rightarrow> FollowRecord \<Rightarrow> FollowRecord" where
  "applyCollected e kv r =
    (let k = fst kv; s = fmt_v (snd kv) in
     if k = ''follow_time'' then
       (case parseDate e s of
          Some t \<Rightarrow> r\<lparr>fr_FollowTime := t\<rparr>
        | None \<Rightarrow> (case parseRFC3339 e s of Some t \<Rightarrow> r\<lparr>fr_FollowTime := t\<rparr> | None \<Rightarrow> r))
     else if k = ''follow_method'' then r\<lparr>fr_FollowMethod := Some s\<rparr>
     else if k = ''follow_content'' then r\<lparr>fr_FollowContent := Some s\<rparr>
     else if k = ''follow_goal'' then r\<lparr>fr_FollowGoal := Some s\<rparr>
     else if k = ''follow_result'' then r\<lparr>fr_FollowResult := Some s\<rparr>
     else if k = ''next_plan'' then r\<lparr>fr_NextPlan := Some s\<rparr>
     else if k = ''risk_content'' then r\<lparr>fr_RiskContent := Some s\<rparr>
     else r)"

definition newFollowRecord :: "env \<Rightarrow> Customer \<Rightarrow> FollowRecord" where
  "newFollowRecord e customer =
    \<lparr>fr_ID = uuid_Nil, fr_UserID = [], fr_CustomerID = c_ID customer,
     fr_CustomerName = c_Name customer,
     fr_ContactPerson = c_ContactPerson customer,
     fr_ContactPhone = c_ContactPhone customer,
     fr_ContactRole = c_ContactRole customer,
     fr_FollowTime = now e,
     fr_FollowMethod = None, fr_FollowContent = None, fr_FollowGoal = None,
     fr_FollowResult = None, fr_RiskContent = None, fr_NextPlan = None\<rparr>"

definition buildFollowRecordFromCollectedData ::
  "env \<Rightarrow> Customer option \<Rightarrow> fields \<Rightarrow> FollowRecord option" where
  "buildFollowRecordFromCollectedData e customer data =
    (case customer of
       None \<Rightarrow> None
     | Some c \<Rightarrow> Some (fold (applyCollected e) data (newFollowRecord e c)))"

definition getFirstFocusTimeForCustomer :: "env \<Rightarrow> ctx \<Rightarrow> world \<Rightarrow> uuid \<Rightarrow> uuid \<Rightarrow> time" where
  "getFirstFocusTimeForCustomer e c w sessionID customerID =
    (case GetDialogsBySession e c w sessionID of
       Inl err \<Rightarrow> now e
     | Inr dialogs \<Rightarrow>
        (case find (\<lambda>x. d_FocusCustomerID x = Some customerID \<and> d_IsFirstFocus x) dialogs of
           Some x \<Rightarrow> d_CreatedAt x
         | None \<Rightarrow> now e))"

definition isFirstFocusForCustomer :: "env \<Rightarrow> ctx \<Rightarrow> world \<Rightarrow> uuid \<Rightarrow> uuid \<Rightarrow> error + bool" where
  "isFirstFocusForCustomer e c w sessionID customerID =
    (case GetDialogsBySession e c w sessionID of
       Inl err \<Rightarrow> Inl err
     | Inr dialogs \<Rightarrow> Inr (\<not> list_ex (\<lambda>x. d_FocusCustomerID x = Some customerID) dialogs))"

definition ensureFocusWhenPending :: "env \<Rightarrow> ctx \<Rightarrow> world \<Rightarrow> RuntimeContext \<Rightarrow> RuntimeContext" where
  "ensureFocusWhenPending e c w runtime =
    (if rt_FocusCustomerID runtime \<noteq> None \<or> length (rt_PendingUpdates runtime) = 0 then runtime
     else if \<not> collectingLike (rt_Status runtime) then runtime
     else
       (case GetLatestFocusCustomerIDFromDialogs e c w (rt_SessionID runtime) of
          Inr (Some latest) \<Rightarrow>
            if map_of (rt_PendingUpdates runtime) latest \<noteq> None
            then runtime\<lparr>rt_FocusCustomerID := Some latest\<rparr>
            else runtime
        | _ \<Rightarrow> runtime))"

text \<open>
  The keys of the set \<open>customerIDs\<close> of \<open>getAllCustomerStates\<close>: the keys of
  \<open>pending_updates\<close> that parse as UUIDs, the focus and the mentioned customer.
\<close>

definition customerIDsOf :: "env \<Rightarrow> RuntimeContext \<Rightarrow> uuid list" where
  "customerIDsOf e runtime =
    remdups
      (List.map_filter (parseUUID e) (map fst (rt_PendingUpdates runtime))
       @ (case rt_FocusCustomerID runtime of None \<Rightarrow> [] | Some f \<Rightarrow> [f])
       @ (case rt_MentionedCustomerID runtime of None \<Rightarrow> [] | Some m \<Rightarrow> [m]))"

text \<open>
  The second loop of \<open>getAllCustomerStates\<close>.  A failed query skips the customer; a
  customer that is not in the table makes the logging call dereference nil.
\<close>

fun customerStatesLoop ::
  "env \<Rightarrow> ctx \<Rightarrow> world \<Rightarrow> RuntimeContext \<Rightarrow> uuid list \<Rightarrow> (uuid \<times> string) list
     \<Rightarrow> error + (uuid \<times> string) list" where
  "customerStatesLoop e c w runtime [] customerStates = Inr customerStates"
| "customerStatesLoop e c w runtime (customerID # rest) customerStates =
     (case GetCustomer e c w customerID of
        Inl err \<Rightarrow> customerStatesLoop e c w runtime rest customerStates
      | Inr customer \<Rightarrow>
         (case (if collectingLike (rt_Status runtime)
                then Inr (buildFollowRecordFromCollectedData e customer
                            (getData (rt_PendingUpdates runtime) customerID))
                else GetLatestFollowRecord e c w customerID) of
            Inl err \<Rightarrow> customerStatesLoop e c w runtime rest customerStates
          | Inr followRecord \<Rightarrow>
             (case customer of
                None \<Rightarrow> Inl (Panic ''nil pointer dereference: customer.Name'')
              | Some cu \<Rightarrow>
                 customerStatesLoop e c w runtime rest
                   (AList.update customerID (DetermineState customer followRecord) customerStates))))"

definition getAllCustomerStates ::
  "env \<Rightarrow> ctx \<Rightarrow> world \<Rightarrow> RuntimeContext \<Rightarrow> error + (uuid \<times> string) list" where
  "getAllCustomerStates e c w runtime =
    customerStatesLoop e c w runtime (customerIDsOf e runtime) []"

text \<open>The fallback of \<open>recalculateStates\<close>: the state order with \<open>COMPLETE\<close> appended, the
  customer ids sorted by their text, the first hit of the first state that has one.\<close>

definition stateOrderWithComplete :: "string list" where
  "stateOrderWithComplete = stateOrder @ [StateComplete]"

definition fallbackFocus :: "(uuid \<times> string) list \<Rightarrow> uuid option" where
  "fallbackFocus customerStates =
    (let customerIDsSorted = sort (map fst customerStates) in
     firstInStateOrder stateOrderWithComplete
       (map (\<lambda>customerID. (customerID, (case map_of customerStates customerID of
                                           None \<Rightarrow> [] | Some st \<Rightarrow> st)))
          customerIDsSorted))"

text \<open>\<open>recalculateStates\<close>, lines 625 to 667: the focus customer is selected, with the
  fallback when none is selected although updates are pending.\<close>

definition recalcFocus ::
  "env \<Rightarrow> ctx \<Rightarrow> world \<Rightarrow> (uuid \<times> string) list \<Rightarrow> RuntimeContext \<Rightarrow> RuntimeContext" where
  "recalcFocus e c w customerStates runtime =
    (let r1 = runtime\<lparr>rt_FocusCustomerID :=
                SelectFocusCustomer (rt_FocusCustomerID runtime) (rt_MentionedCustomerID runtime)
                  customerStates (rt_Status runtime)\<rparr> in
     if rt_FocusCustomerID r1 = None \<and> length (rt_PendingUpdates r1) > 0 then
       (let r1a = (if length customerStates > 0
                   then r1\<lparr>rt_FocusCustomerID := fallbackFocus customerStates\<rparr>
                   else r1)
        in if rt_FocusCustomerID r1a = None \<and> length (rt_PendingUpdates r1a) > 0
           then ensureFocusWhenPending e c w r1a else r1a)
     else r1)"

text \<open>Lines 669 to 680: whether the customer is in focus for the first time.\<close>

definition recalcFirstFocus ::
  "env \<Rightarrow> ctx \<Rightarrow> world \<Rightarrow> uuid option \<Rightarrow> RuntimeContext \<Rightarrow> RuntimeContext" where
  "recalcFirstFocus e c w previousFocusCustomerID runtime =
    (case rt_FocusCustomerID runtime of
       None \<Rightarrow> runtime
     | Some f \<Rightarrow>
        if previousFocusCustomerID = None \<or> previousFocusCustomerID \<noteq> Some f then
          (case isFirstFocusForCustomer e c w (rt_SessionID runtime) f of
             Inl err \<Rightarrow> runtime
           | Inr isFirstFocus \<Rightarrow> runtime\<lparr>rt_IsFirstFocus := isFirstFocus\<rparr>)
        else runtime)"

text \<open>Lines 682 to 692: the state of the focus customer.\<close>

definition recalcState :: "env \<Rightarrow> ctx \<Rightarrow> world \<Rightarrow> RuntimeContext \<Rightarrow> RuntimeContext" where
  "recalcState e c w runtime =
    (case rt_FocusCustomerID runtime of
       None \<Rightarrow> runtime
     | Some f \<Rightarrow>
        (let customer = (case GetCustomer e c w f of Inl err \<Rightarrow> None | Inr cu \<Rightarrow> cu);
             followRecord =
               (if collectingLike (rt_Status runtime)
                then buildFollowRecordFromCollectedData e customer
                       (getData (rt_PendingUpdates runtime) f)
                else (case GetLatestFollowRecord e c w f of Inl err \<Rightarrow> None | Inr fr \<Rightarrow> fr))
         in runtime\<lparr>rt_State := DetermineState customer followRecord\<rparr>))"

text \<open>Lines 697 to 707: what is done with \<open>newStatus\<close>, the stage that line 695 derives;
  the return to \<open>CONFIRMING\<close> after a correction.\<close>

definition recalcStatus ::
  "string \<Rightarrow> (uuid \<times> string) list \<Rightarrow> RuntimeContext \<Rightarrow> RuntimeContext" where
  "recalcStatus newStatus customerStates runtime =
    (if newStatus = StatusAskingOtherCustomers \<and> rt_PendingReconfirm runtime
        \<and> length customerStates > 0
     then runtime\<lparr>rt_Status := StatusConfirming, rt_PendingReconfirm := False\<rparr>
     else runtime\<lparr>rt_Status := newStatus,
                  rt_PendingReconfirm :=
                    (if newStatus = StatusAskingOtherCustomers then False
                     else rt_PendingReconfirm runtime)\<rparr>)"

definition recalculateStates ::
  "env \<Rightarrow> ctx \<Rightarrow> world \<Rightarrow> RuntimeContext \<Rightarrow> error + RuntimeContext" where
  "recalculateStates e c w runtime =
    (case getAllCustomerStates e c w runtime of
       Inl err \<Rightarrow> Inl err
     | Inr customerStates \<Rightarrow>
        (let previousFocusCustomerID = rt_FocusCustomerID runtime;
             r3 = recalcState e c w
                    (recalcFirstFocus e c w previousFocusCustomerID
                       (recalcFocus e c w customerStates runtime));
             newStatus = DetermineStatus customerStates in
         Inr (recalcStatus newStatus customerStates r3)))"

text \<open>
  The functions below that take \<open>runtime *RuntimeContext\<close> change it in place and return
  an \<open>error\<close>; their model returns the error (\<open>None\<close> for nil) together with the runtime
  as the call leaves it.
\<close>

definition nonNil :: "fields \<Rightarrow> string \<Rightarrow> json option" where
  "nonNil m k = (case map_of m k of None \<Rightarrow> None | Some v \<Rightarrow> if v = JNull then None else Some v)"

text \<open>\<open>writeFieldToRuntime\<close> returns nil on every path.\<close>

definition writeFieldToRuntime :: "RuntimeContext \<Rightarrow> uuid \<Rightarrow> string \<Rightarrow> json \<Rightarrow> RuntimeContext" where
  "writeFieldToRuntime runtime customerID fieldName v =
    (if fieldName = ''customer_name'' then runtime
     else if fieldName = ''follow_time'' then
       runtime\<lparr>rt_PendingUpdates :=
         setField (ensureEntry (rt_PendingUpdates runtime) customerID) customerID
           ''follow_time'' (JStr (fmt_v v))\<rparr>
     else if fieldName \<in> set [''follow_method'', ''follow_content'', ''follow_goal'',
                               ''follow_result'', ''next_plan'', ''risk''] then
       (let dbKey = (if fieldName = ''risk'' then ''risk_content'' else fieldName) in
        runtime\<lparr>rt_PendingUpdates :=
          setField (ensureEntry (rt_PendingUpdates runtime) customerID) customerID
            dbKey (JStr (fmt_v v))\<rparr>)
     else runtime)"

definition handleFieldModificationInConfirming ::
  "RuntimeContext \<Rightarrow> string \<Rightarrow> json \<Rightarrow> error option \<times> RuntimeContext" where
  "handleFieldModificationInConfirming runtime modifiedField newValue =
    (case rt_FocusCustomerID runtime of
       None \<Rightarrow> (Some (Panic ''nil pointer dereference: runtime.FocusCustomerID''), runtime)
     | Some customerKey \<Rightarrow>
        if modifiedField = ''follow_time'' \<or> modifiedField = ''risk_content''
           \<or> modifiedField = ''risk'' then
          (let key = (if modifiedField = ''risk'' then ''risk_content'' else modifiedField) in
           (None, runtime\<lparr>rt_PendingUpdates :=
              setField (ensureEntry (rt_PendingUpdates runtime) customerKey) customerKey
                key (JStr (fmt_v newValue))\<rparr>))
        else
          (let newState = fst (HandleFieldModification modifiedField);
               fieldsToClear = snd (HandleFieldModification modifiedField) in
           if newState = [] then (None, runtime)
           else
             (let p1 = ensureEntry (rt_PendingUpdates runtime) customerKey;
                  data1 = fold (\<lambda>field d.
                            if field = ''risk'' then AList.delete ''risk_content'' (AList.delete field d)
                            else AList.delete field d) fieldsToClear (getData p1 customerKey);
                  dbKey = (if modifiedField = ''risk'' then ''risk_content'' else modifiedField);
                  data2 = AList.update dbKey (JStr (fmt_v newValue)) data1;
                  data3 = fold AList.delete fieldsToClear data2
              in (None, runtime\<lparr>rt_PendingUpdates := AList.update customerKey (Some data3) p1,
                                 rt_State := newState,
                                 rt_PendingReconfirm := True\<rparr>))))"

text \<open>The loop returns at the first entry it visits that is neither \<open>risk\<close> nor
  \<open>contact_person\<close> and whose value is not nil.\<close>

definition handleConfirmingStageModifications ::
  "RuntimeContext \<Rightarrow> fields \<Rightarrow> error option \<times> RuntimeContext" where
  "handleConfirmingStageModifications runtime fieldUpdates =
    (case find (\<lambda>kv. fst kv \<noteq> ''risk'' \<and> fst kv \<noteq> ''contact_person'' \<and> snd kv \<noteq> JNull)
            fieldUpdates of
       None \<Rightarrow> (None, runtime)
     | Some kv \<Rightarrow> handleFieldModificationInConfirming runtime (fst kv) (snd kv))"

definition handleCurrentFieldWrite ::
  "RuntimeContext \<Rightarrow> fields \<Rightarrow> error option \<times> RuntimeContext" where
  "handleCurrentFieldWrite runtime fieldUpdates =
    (let currentField = GetFieldByState (rt_State runtime) in
     case rt_FocusCustomerID runtime of
       None \<Rightarrow> (Some (Panic ''nil pointer dereference: runtime.FocusCustomerID''), runtime)
     | Some customerKey \<Rightarrow>
        (case (case nonNil fieldUpdates currentField of
                 Some v \<Rightarrow> Some v
               | None \<Rightarrow> nonNil (getData (rt_PendingUpdates runtime) customerKey) currentField) of
           Some v \<Rightarrow> (None, writeFieldToRuntime runtime customerKey currentField v)
         | None \<Rightarrow> (None, runtime)))"

definition handlePendingUpdates :: "RuntimeContext \<Rightarrow> fields \<Rightarrow> RuntimeContext" where
  "handlePendingUpdates runtime fieldUpdates =
    (case rt_FocusCustomerID runtime of
       None \<Rightarrow> runtime
     | Some customerKey \<Rightarrow>
        (let currentField = GetFieldByState (rt_State runtime) in
         runtime\<lparr>rt_PendingUpdates :=
           fold (\<lambda>kv p.
                   if fst kv \<noteq> currentField \<and> fst kv \<noteq> ''risk'' \<and> fst kv \<noteq> ''contact_person''
                      \<and> snd kv \<noteq> JNull
                   then setField p customerKey (fst kv) (snd kv) else p)
             fieldUpdates (ensureEntry (rt_PendingUpdates runtime) customerKey)\<rparr>))"

text \<open>\<open>writeContactPerson\<close>, called with the map \<open>contactInfo\<close>.\<close>

definition writeContactPerson :: "env \<Rightarrow> ctx \<Rightarrow> world \<Rightarrow> uuid \<Rightarrow> fields \<Rightarrow> error option \<times> world" where
  "writeContactPerson e c w customerID contactInfo =
    (let name = map_option fmt_v (nonNil contactInfo ''name'');
         role = map_option fmt_v (nonNil contactInfo ''role'');
         phone = map_option fmt_v (nonNil contactInfo ''phone'') in
     if name = None \<and> role = None \<and> phone = None then (None, w)
     else
       (case GetCustomer e c w customerID of
          Inl err \<Rightarrow> (Some err, w)
        | Inr None \<Rightarrow> (Some (Panic ''nil pointer dereference: customer.ContactPerson''), w)
        | Inr (Some customer) \<Rightarrow>
           (let c1 = (if name \<noteq> None then customer\<lparr>c_ContactPerson := name\<rparr> else customer);
                c2 = (if role \<noteq> None then c1\<lparr>c_ContactRole := role\<rparr> else c1);
                c3 = (if phone \<noteq> None then c2\<lparr>c_ContactPhone := phone\<rparr> else c2) in
            case UpdateCustomer e c c3 w of
              Inl err \<Rightarrow> (Some err, w)
            | Inr w' \<Rightarrow> (None, w'))))"

text \<open>An error of \<open>writeContactPerson\<close> is logged; a panic is not an error and goes on up.\<close>

definition handleSpecialFields ::
  "env \<Rightarrow> ctx \<Rightarrow> world \<Rightarrow> RuntimeContext \<Rightarrow> fields \<Rightarrow> (error option \<times> RuntimeContext) \<times> world" where
  "handleSpecialFields e c w runtime fieldUpdates =
    (case rt_FocusCustomerID runtime of
       None \<Rightarrow>
         ((if nonNil fieldUpdates ''risk'' \<noteq> None
               \<and> CanWriteRisk (rt_SemanticRelevance runtime) (rt_State runtime)
              \<or> nonNil fieldUpdates ''contact_person'' \<noteq> None
              \<or> nonNil fieldUpdates ''contact_role'' \<noteq> None
              \<or> nonNil fieldUpdates ''contact_phone'' \<noteq> None
           then Some (Panic ''nil pointer dereference: runtime.FocusCustomerID'') else None,
           runtime), w)
     | Some focus \<Rightarrow>
        (let r1 = (case nonNil fieldUpdates ''risk'' of
                     Some riskValue \<Rightarrow>
                       if CanWriteRisk (rt_SemanticRelevance runtime) (rt_State runtime)
                       then writeFieldToRuntime runtime focus ''risk'' riskValue else runtime
                   | None \<Rightarrow> runtime);
             contactInfo =
               (case nonNil fieldUpdates ''contact_person'' of
                  Some v \<Rightarrow> [(''name'', v)] | None \<Rightarrow> [])
               @ (case nonNil fieldUpdates ''contact_role'' of
                    Some v \<Rightarrow> [(''role'', v)] | None \<Rightarrow> [])
               @ (case nonNil fieldUpdates ''contact_phone'' of
                    Some v \<Rightarrow> [(''phone'', v)] | None \<Rightarrow> [])
         in if contactInfo \<noteq> [] then
              (case writeContactPerson e c w focus contactInfo of
                 (Some (Panic p), w') \<Rightarrow> ((Some (Panic p), r1), w')
               | (_, w') \<Rightarrow> ((None, r1), w'))
            else ((None, r1), w)))"

definition processFieldUpdates ::
  "env \<Rightarrow> ctx \<Rightarrow> world \<Rightarrow> RuntimeContext \<Rightarrow> fields \<Rightarrow> (error option \<times> RuntimeContext) \<times> world" where
  "processFieldUpdates e c w runtime fieldUpdates =
    (if rt_FocusCustomerID runtime = None then ((None, runtime), w)
     else if rt_Status runtime = StatusConfirming then
       (handleConfirmingStageModifications runtime fieldUpdates, w)
     else
       (case handleCurrentFieldWrite runtime fieldUpdates of
          (Some err, r1) \<Rightarrow> ((Some err, r1), w)
        | (None, r1) \<Rightarrow> handleSpecialFields e c w (handlePendingUpdates r1 fieldUpdates) fieldUpdates))"

definition findOrCreateCustomer :: "env \<Rightarrow> ctx \<Rightarrow> world \<Rightarrow> string \<Rightarrow> (error + uuid) \<times> world" where
  "findOrCreateCustomer e c w name =
    (case GetCustomerByName e c w name of
       Inl err \<Rightarrow> (Inl err, w)
     | Inr (Some customer) \<Rightarrow> (Inr (c_ID customer), w)
     | Inr None \<Rightarrow>
        (let newCustomer = \<lparr>c_ID = newUUID e ''customer'' name, c_Name = name,
                             c_ContactPerson = None, c_ContactPhone = None, c_ContactRole = None\<rparr> in
         case CreateCustomer e c newCustomer w of
           Inl err \<Rightarrow> (Inl err, w)
         | Inr w' \<Rightarrow> (Inr (c_ID newCustomer), w')))"

definition saveConfirmedCustomerAndTransition ::
  "env \<Rightarrow> ctx \<Rightarrow> world \<Rightarrow> RuntimeContext \<Rightarrow> string \<Rightarrow> (error + RuntimeContext) \<times> world" where
  "saveConfirmedCustomerAndTransition e c w runtime userID =
    (case rt_FocusCustomerID runtime of
       None \<Rightarrow> (Inl (Err ''no focus customer to save''), w)
     | Some customerID \<Rightarrow>
        (let data = getData (rt_PendingUpdates runtime) customerID in
         if length data = 0 then (Inl (Err ''no pending data for customer''), w)
         else
           (case GetCustomer e c w customerID of
              Inl err \<Rightarrow> (Inl (Err ''get customer''), w)
            | Inr None \<Rightarrow> (Inl (Err ''get customer''), w)
            | Inr (Some customer) \<Rightarrow>
               (case buildFollowRecordFromCollectedData e (Some customer) data of
                  None \<Rightarrow> (Inl (Err ''failed to build follow record''), w)
                | Some built \<Rightarrow>
                   (let followTime = getFirstFocusTimeForCustomer e c w (rt_SessionID runtime) customerID;
                        followRecord = built\<lparr>fr_FollowTime := followTime, fr_UserID := userID,
                                             fr_ID := newUUID e ''follow_record'' customerID\<rparr> in
                    case CreateFollowRecord e c followRecord w of
                      Inl err \<Rightarrow> (Inl err, w)
                    | Inr w' \<Rightarrow>
                       (case recalculateStates e c w'
                               (runtime\<lparr>rt_PendingUpdates :=
                                           AList.delete customerID (rt_PendingUpdates runtime),
                                         rt_FocusCustomerID := None,
                                         rt_MentionedCustomerID := None,
                                         rt_State := StateCustomerName\<rparr>) of
                          Inl err \<Rightarrow> (Inl err, w')
                        | Inr runtime' \<Rightarrow> (Inr runtime', w')))))))"

text \<open>
  The loop over \<open>semanticResult.CustomerRefs\<close> in \<open>processWithRuleEngine\<close>.  An error of
  \<open>processFieldUpdates\<close> or of \<open>findOrCreateCustomer\<close> is logged and the loop goes on; a
  panic ends the call.
\<close>

fun customerRefsLoop ::
  "env \<Rightarrow> ctx \<Rightarrow> string \<Rightarrow> CustomerRefItem list \<Rightarrow> RuntimeContext \<Rightarrow> world
     \<Rightarrow> (error + RuntimeContext) \<times> world" where
  "customerRefsLoop e c focusCustomerName [] newRuntime w = (Inr newRuntime, w)"
| "customerRefsLoop e c focusCustomerName (item # rest) newRuntime w =
     (if rt_Status newRuntime = StatusConfirming then
        (if rt_FocusCustomerID newRuntime \<noteq> None \<and> length (cr_FieldUpdates item) > 0 then
           (case processFieldUpdates e c w newRuntime (cr_FieldUpdates item) of
              ((Some (Panic p), r), w') \<Rightarrow> (Inl (Panic p), w')
            | ((_, r), w') \<Rightarrow> customerRefsLoop e c focusCustomerName rest r w')
         else customerRefsLoop e c focusCustomerName rest newRuntime w)
      else if cr_CustomerName item = [] then
        (if rt_FocusCustomerID newRuntime \<noteq> None \<and> length (cr_FieldUpdates item) > 0 then
           (case processFieldUpdates e c w newRuntime (cr_FieldUpdates item) of
              ((Some (Panic p), r), w') \<Rightarrow> (Inl (Panic p), w')
            | ((_, r), w') \<Rightarrow> customerRefsLoop e c focusCustomerName rest r w')
         else customerRefsLoop e c focusCustomerName rest newRuntime w)
      else if cr_CustomerName item = focusCustomerName then
        (case processFieldUpdates e c w newRuntime (cr_FieldUpdates item) of
           ((Some (Panic p), r), w') \<Rightarrow> (Inl (Panic p), w')
         | ((_, r), w') \<Rightarrow> customerRefsLoop e c focusCustomerName rest r w')
      else
        (case findOrCreateCustomer e c w (cr_CustomerName item) of
           (Inl err, w') \<Rightarrow> customerRefsLoop e c focusCustomerName rest newRuntime w'
         | (Inr customerID, w') \<Rightarrow>
            (case processFieldUpdates e c w'
                    (newRuntime\<lparr>rt_MentionedCustomerID := Some customerID,
                                 rt_FocusCustomerID := Some customerID\<rparr>)
                    (cr_FieldUpdates item) of
               ((Some (Panic p), r), w'') \<Rightarrow> (Inl (Panic p), w'')
             | ((_, r), w'') \<Rightarrow> customerRefsLoop e c focusCustomerName rest r w'')))"

definition processWithRuleEngine ::
  "env \<Rightarrow> ctx \<Rightarrow> world \<Rightarrow> RuntimeContext \<Rightarrow> SemanticAnalysisResult option \<Rightarrow> string \<Rightarrow> string
     \<Rightarrow> (error + RuntimeContext) \<times> world" where
  "processWithRuleEngine e c w runtime semanticResult userInput userID =
    (let newRuntime = ensureFocusWhenPending e c w runtime in
     if rt_Status runtime = StatusConfirming \<and> aiIsUserConfirmation e userInput = Some True then
       saveConfirmedCustomerAndTransition e c w newRuntime userID
     else if rt_Status runtime = StatusAskingOtherCustomers
             \<and> aiIsUserNoMoreCustomers e userInput = Some True then
       (Inr (newRuntime\<lparr>rt_Status := StatusOutputting\<rparr>), w)
     else
       (case (case semanticResult of
                None \<Rightarrow> (Inr newRuntime, w)
              | Some sem \<Rightarrow>
                 (let r1 = newRuntime\<lparr>rt_SemanticRelevance := sem_SemanticRelevance sem\<rparr> in
                  if sem_SemanticRelevance sem = SemanticStrong \<and> length (sem_CustomerRefs sem) > 0
                  then
                    (let focusCustomerName =
                           (case rt_FocusCustomerID r1 of
                              None \<Rightarrow> []
                            | Some f \<Rightarrow>
                               (case GetCustomer e c w f of
                                  Inr (Some focusC) \<Rightarrow> c_Name focusC
                                | _ \<Rightarrow> []))
                     in customerRefsLoop e c focusCustomerName (sem_CustomerRefs sem) r1 w)
                  else (Inr r1, w))) of
          (Inl err, w') \<Rightarrow> (Inl err, w')
        | (Inr r2, w') \<Rightarrow>
           (case recalculateStates e c w' r2 of
              Inl err \<Rightarrow> (Inl err, w')
            | Inr r3 \<Rightarrow> (Inr r3, w'))))"

definition loadOrCreateSession :: "env \<Rightarrow> ctx \<Rightarrow> world \<Rightarrow> string \<Rightarrow> (error + Session) \<times> world" where
  "loadOrCreateSession e c w userID =
    (case GetActiveSession e c w userID of
       Inl err \<Rightarrow> (Inl err, w)
     | Inr (Some session) \<Rightarrow> (Inr session, w)
     | Inr None \<Rightarrow>
        (let session = \<lparr>s_ID = newUUID e ''session'' userID, s_UserID = userID,
                         s_Status = StatusCollecting, s_EndedAt = None\<rparr> in
         case CreateSession e c session w of
           Inl err \<Rightarrow> (Inl err, w)
         | Inr w' \<Rightarrow> (Inr session, w')))"

text \<open>
  \<open>loadLatestRuntime\<close>.  After the pending updates, the snapshot is decoded a second
  time, into \<open>models.RuntimeState\<close>, whose member \<open>PendingUpdates\<close> has the nested map
  type: that decoding returns a type error when the stored value is not of that shape.
\<close>

definition loadLatestRuntime :: "env \<Rightarrow> ctx \<Rightarrow> world \<Rightarrow> uuid \<Rightarrow> error + RuntimeContext" where
  "loadLatestRuntime e c w sessionID =
    (case GetLatestDialog e c w sessionID of
       Inl err \<Rightarrow> Inl err
     | Inr None \<Rightarrow>
         Inr \<lparr>rt_SessionID = sessionID, rt_TurnIndex = 0, rt_State = StateCustomerName,
              rt_Status = StatusCollecting, rt_FocusCustomerID = None,
              rt_MentionedCustomerID = None, rt_SemanticRelevance = [],
              rt_PendingUpdates = [], rt_IsFirstFocus = False, rt_PendingReconfirm = False\<rparr>
     | Inr (Some dialog) \<Rightarrow>
        (let snapshot = d_RuntimeSnapshot dialog;
             pendingUpdates = loadPendingUpdatesFromSnapshot snapshot in
         if (case rs_PendingUpdates snapshot of
               None \<Rightarrow> False
             | Some raw \<Rightarrow> unmarshalNested raw = None)
         then Inl (Err ''failed to unmarshal runtime snapshot'')
         else
           Inr \<lparr>rt_SessionID = sessionID, rt_TurnIndex = d_TurnIndex dialog,
                rt_State = rs_State snapshot, rt_Status = rs_Status snapshot,
                rt_FocusCustomerID = rs_FocusCustomerID snapshot,
                rt_MentionedCustomerID = None, rt_SemanticRelevance = [],
                rt_PendingUpdates = pendingUpdates, rt_IsFirstFocus = False,
                rt_PendingReconfirm = rs_PendingReconfirm snapshot\<rparr>))"

definition ShouldCallSemanticAnalysis :: "env \<Rightarrow> string \<Rightarrow> string \<Rightarrow> bool" where
  "ShouldCallSemanticAnalysis e status userInput =
    (if \<not> collectingLike status then False
     else (case aiIsCustomerFollowRelated e userInput of
             None \<Rightarrow> False
           | Some isCustomerFollowRelated \<Rightarrow> isCustomerFollowRelated))"

definition GetSessionConversationHistory ::
  "env \<Rightarrow> ctx \<Rightarrow> world \<Rightarrow> uuid \<Rightarrow> int \<Rightarrow> error + string" where
  "GetSessionConversationHistory e c w sessionID beforeTurnIndex =
    (case GetDialogsBySession e c w sessionID of
       Inl err \<Rightarrow> Inl err
     | Inr dialogs \<Rightarrow>
        Inr (joinWith [CHR 0x0A]
               (List.map_filter
                  (\<lambda>x. case d_TurnContent x of
                          None \<Rightarrow> None
                        | Some tc \<Rightarrow> if tc \<noteq> [] then Some tc else None)
                  (takeWhile (\<lambda>x. d_TurnIndex x < beforeTurnIndex) dialogs))))"

definition displayFields :: "string list" where
  "displayFields = [''follow_method'', ''follow_content'', ''follow_goal'',
                    ''follow_result'', ''next_plan'', ''risk_content'']"

definition nonEmptyOpt :: "string \<Rightarrow> string option \<Rightarrow> fields" where
  "nonEmptyOpt k p = (case p of None \<Rightarrow> [] | Some s \<Rightarrow> if s \<noteq> [] then [(k, JStr s)] else [])"

definition buildConfirmationDisplayData ::
  "env \<Rightarrow> ctx \<Rightarrow> world \<Rightarrow> RuntimeContext \<Rightarrow> uuid \<Rightarrow> fields" where
  "buildConfirmationDisplayData e c w runtime customerID =
    (let data = getData (rt_PendingUpdates runtime) customerID in
     if length data = 0 then []
     else
       (case GetCustomer e c w customerID of
          Inr (Some customer) \<Rightarrow>
            (let out0 = [(''customer_name'', JStr (c_Name customer))]
                        @ nonEmptyOpt ''contact_person'' (c_ContactPerson customer)
                        @ nonEmptyOpt ''contact_phone'' (c_ContactPhone customer)
                        @ nonEmptyOpt ''contact_role'' (c_ContactRole customer);
                 userTime = (case nonNil data ''follow_time'' of
                               None \<Rightarrow> None
                             | Some v \<Rightarrow> if fmt_v v \<noteq> [] then Some (fmt_v v) else None);
                 out1 = out0 @ [(''follow_time'',
                          JStr (case userTime of
                                  Some s \<Rightarrow> s
                                | None \<Rightarrow> formatDate e
                                    (getFirstFocusTimeForCustomer e c w (rt_SessionID runtime)
                                       customerID)))]
             in fold (\<lambda>kv out.
                        if snd kv = JNull then out
                        else if fst kv \<in> set displayFields
                          then AList.update (fst kv) (JStr (fmt_v (snd kv))) out
                        else out) data out1)
        | _ \<Rightarrow> []))"

definition summaryDataOf :: "Customer option \<Rightarrow> FollowRecord option \<Rightarrow> fields" where
  "summaryDataOf customer followRecord =
    (case customer of None \<Rightarrow> [] | Some cu \<Rightarrow> [(''customer_name'', JStr (c_Name cu))])
    @ (case followRecord of
         None \<Rightarrow> []
       | Some r \<Rightarrow>
           (case fr_FollowMethod r of None \<Rightarrow> [] | Some s \<Rightarrow> [(''follow_method'', JStr s)])
           @ (case fr_FollowContent r of None \<Rightarrow> [] | Some s \<Rightarrow> [(''follow_content'', JStr s)])
           @ (case fr_FollowGoal r of None \<Rightarrow> [] | Some s \<Rightarrow> [(''follow_goal'', JStr s)])
           @ (case fr_FollowResult r of None \<Rightarrow> [] | Some s \<Rightarrow> [(''follow_result'', JStr s)])
           @ (case fr_NextPlan r of None \<Rightarrow> [] | Some s \<Rightarrow> [(''next_plan'', JStr s)])
           @ (case fr_RiskContent r of None \<Rightarrow> [] | Some s \<Rightarrow> [(''risk_content'', JStr s)]))"

text \<open>
  \<open>generateReply\<close>.  The dialogue operation is given the stage, the focus customer's
  name, the state (from which \<open>getExpectedInfo\<close> takes its text), the input, the display
  data (whose JSON is the history context), the summary and the conversation history.
\<close>

definition generateReply :: "env \<Rightarrow> ctx \<Rightarrow> world \<Rightarrow> RuntimeContext \<Rightarrow> string \<Rightarrow> error + string" where
  "generateReply e c w runtime userInput =
    (if rt_Status runtime = StatusOutputting then Inr (outputtingConfirm e)
     else if rt_Status runtime = StatusAskingOtherCustomers then Inr (askingOtherCustomers e)
     else
       (let customer =
              (case rt_FocusCustomerID runtime of
                 None \<Rightarrow> None
               | Some f \<Rightarrow> (case GetCustomer e c w f of Inr cu \<Rightarrow> cu | Inl err \<Rightarrow> None));
            focusCustomerName = (case customer of None \<Rightarrow> [] | Some cu \<Rightarrow> c_Name cu);
            conversationHistory =
              (case GetSessionConversationHistory e c w (rt_SessionID runtime) (rt_TurnIndex runtime) of
                 Inr h \<Rightarrow> h | Inl err \<Rightarrow> []);
            historyContext =
              (if rt_Status runtime = StatusConfirming then
                 (case rt_FocusCustomerID runtime of
                    None \<Rightarrow> []
                  | Some f \<Rightarrow> buildConfirmationDisplayData e c w runtime f)
               else []);
            summary =
              (if rt_Status runtime = StatusConfirming then []
               else if rt_Status runtime = StatusCollecting
                       \<or> rt_Status runtime = StatusAskingOtherCustomers then
                 (case rt_FocusCustomerID runtime of
                    None \<Rightarrow> []
                  | Some f \<Rightarrow>
                     (let followRecord = buildFollowRecordFromCollectedData e customer
                                           (getData (rt_PendingUpdates runtime) f);
                          summaryData = summaryDataOf customer followRecord in
                      if (followRecord \<noteq> None \<or> length (getData (rt_PendingUpdates runtime) f) > 0)
                         \<and> length summaryData > 0
                      then (case aiSummarizeCustomerInfo e summaryData of Some t \<Rightarrow> t | None \<Rightarrow> [])
                      else []))
               else [])
        in case aiGenerateDialogue e (rt_Status runtime) focusCustomerName (rt_State runtime)
                  userInput historyContext summary conversationHistory of
             None \<Rightarrow> Inl (Err ''dialogue generation failed'')
           | Some reply \<Rightarrow> Inr reply))"

definition saveRuntimeSnapshot ::
  "env \<Rightarrow> ctx \<Rightarrow> uuid \<Rightarrow> RuntimeContext \<Rightarrow> string \<Rightarrow> string \<Rightarrow> world \<Rightarrow> error + world" where
  "saveRuntimeSnapshot e c sessionID runtime userInput assistantReply w =
    (let snapshot = \<lparr>rs_SessionID = sessionID,
                      rs_FocusCustomerID = rt_FocusCustomerID runtime,
                      rs_State = rt_State runtime,
                      rs_Status = rt_Status runtime,
                      rs_PendingUpdates =
                        (if length (rt_PendingUpdates runtime) = 0 then None
                         else Some (marshalPending (rt_PendingUpdates runtime))),
                      rs_PendingReconfirm = rt_PendingReconfirm runtime\<rparr>;
         pendingBytes = (if length (rt_PendingUpdates runtime) > 0
                         then marshalPending (rt_PendingUpdates runtime) else JObj []);
         dialog = \<lparr>d_ID = newUUID e ''dialog'' sessionID,
                    d_SessionID = sessionID,
                    d_State = rt_State runtime,
                    d_Status = rt_Status runtime,
                    d_TurnIndex = rt_TurnIndex runtime,
                    d_FocusCustomerID = rt_FocusCustomerID runtime,
                    d_IsFirstFocus = rt_IsFirstFocus runtime,
                    d_SemanticRelevance = Some (rt_SemanticRelevance runtime),
                    d_PendingUpdates = pendingBytes,
                    d_RuntimeSnapshot = snapshot,
                    d_TurnContent =
                      (if userInput \<noteq> [] \<or> assistantReply \<noteq> []
                       then Some (''User: '' @ userInput @ [CHR 0x0A] @ ''Assistant: '' @ assistantReply)
                       else None),
                    d_CreatedAt = 0\<rparr>
     in CreateDialog e c dialog w)"

text \<open>\<open>OutputWorker.SubmitTask\<close>: a non-blocking send on the channel of capacity 100.\<close>

definition SubmitTask :: "env \<Rightarrow> uuid \<Rightarrow> string \<Rightarrow> world \<Rightarrow> error + world" where
  "SubmitTask e sessionID userID w =
    (if length (w_queue w) < 100
     then Inr (w\<lparr>w_queue := w_queue w @ [\<lparr>t_SessionID = sessionID, t_UserID = userID,
                                            t_CreatedAt = now e\<rparr>]\<rparr>)
     else Inl (Err ''output task queue is full''))"

text \<open>
  Step 1.5 of \<open>ProcessTurn\<close>, for a session in \<open>OUTPUTTING\<close>: either the turn ends here with
  a reply (\<open>Inl\<close>), or the session is closed and a new one takes its place (\<open>Inr\<close>).
\<close>

definition leaveOutputting ::
  "env \<Rightarrow> ctx \<Rightarrow> world \<Rightarrow> Session \<Rightarrow> string \<Rightarrow> string \<Rightarrow> (error + (string + Session)) \<times> world" where
  "leaveOutputting e c w session userID userInput =
    (let isFollowUp = (case aiIsCustomerFollowRelated e userInput of None \<Rightarrow> False | Some b \<Rightarrow> b) in
     if \<not> isFollowUp then
       (Inr (Inl (if outputtingEnded e = [] then outputtingEndedDefault e else outputtingEnded e)), w)
     else
       (case UpdateSession e c \<lparr>s_ID = s_ID session, s_UserID = [], s_Status = StatusExit,
                                s_EndedAt = Some (now e)\<rparr> w of
          Inl err \<Rightarrow> (Inl err, w)
        | Inr w1 \<Rightarrow>
           (let newSession = \<lparr>s_ID = newUUID e ''session'' userID, s_UserID = userID,
                               s_Status = StatusCollecting, s_EndedAt = None\<rparr> in
            case CreateSession e c newSession w1 of
              Inl err \<Rightarrow> (Inl err, w1)
            | Inr w2 \<Rightarrow> (Inr (Inr newSession), w2))))"

text \<open>Steps 2 to 8 of \<open>ProcessTurn\<close>, for the session the turn works on.\<close>

definition turnOnSession ::
  "env \<Rightarrow> ctx \<Rightarrow> world \<Rightarrow> Session \<Rightarrow> string \<Rightarrow> string \<Rightarrow> (error + string) \<times> world" where
  "turnOnSession e c w session userID userInput =
    (case loadLatestRuntime e c w (s_ID session) of
       Inl err \<Rightarrow> (Inl err, w)
     | Inr loaded \<Rightarrow>
        (let runtime = loaded\<lparr>rt_TurnIndex := rt_TurnIndex loaded + 1\<rparr>;
             semanticResult =
               (if ShouldCallSemanticAnalysis e (rt_Status runtime) userInput then
                  (let focusCustomerName =
                         (case rt_FocusCustomerID runtime of
                            None \<Rightarrow> []
                          | Some f \<Rightarrow>
                             (case GetCustomer e c w f of Inr (Some cu) \<Rightarrow> c_Name cu | _ \<Rightarrow> []));
                       convHistory =
                         (case GetSessionConversationHistory e c w (s_ID session)
                                 (rt_TurnIndex runtime) of
                            Inr h \<Rightarrow> h | Inl err \<Rightarrow> [])
                   in aiSemanticAnalysis e userInput (rt_Status runtime) focusCustomerName
                        (GetFieldByState (rt_State runtime)) convHistory)
                else None) in
         case processWithRuleEngine e c w runtime semanticResult userInput userID of
           (Inl err, w1) \<Rightarrow> (Inl err, w1)
         | (Inr newRuntime, w1) \<Rightarrow>
            (let w2 = (if rt_Status newRuntime = StatusOutputting then
                         (case SubmitTask e (s_ID session) userID w1 of
                            Inl err \<Rightarrow> w1 | Inr w' \<Rightarrow> w')
                       else w1) in
             case (if rt_Status newRuntime = StatusOutputting
                   then UpdateSession e c (session\<lparr>s_Status := StatusOutputting\<rparr>) w2
                   else Inr w2) of
               Inl err \<Rightarrow> (Inl err, w2)
             | Inr w3 \<Rightarrow>
                (let reply = (case generateReply e c w3 newRuntime userInput of
                                Inl err \<Rightarrow> replyFailedText e
                              | Inr r \<Rightarrow> r) in
                 case saveRuntimeSnapshot e c (s_ID session) newRuntime userInput reply w3 of
                   Inl err \<Rightarrow> (Inl err, w3)
                 | Inr w4 \<Rightarrow> (Inr reply, w4)))))"

text \<open>Steps 1 and 1.5 of \<open>ProcessTurn\<close>: the session the turn works on, or the reply that
  ends the turn at once.\<close>

definition turnSession ::
  "env \<Rightarrow> ctx \<Rightarrow> world \<Rightarrow> string \<Rightarrow> string \<Rightarrow> (error + (string + Session)) \<times> world" where
  "turnSession e c w userID userInput =
    (case loadOrCreateSession e c w userID of
       (Inl err, w1) \<Rightarrow> (Inl err, w1)
     | (Inr session, w1) \<Rightarrow>
        if s_Status session = StatusOutputting
        then leaveOutputting e c w1 session userID userInput
        else (Inr (Inr session), w1))"

definition ProcessTurn :: "env \<Rightarrow> world \<Rightarrow> string \<Rightarrow> string \<Rightarrow> (error + string) \<times> world" where
  "ProcessTurn e w userID userInput =
    WithTx e
      (\<lambda>w0.
         case turnSession e TxCtx w0 userID userInput of
           (Inl err, w1) \<Rightarrow> (Inl err, w1)
         | (Inr (Inl reply), w1) \<Rightarrow> (Inr reply, w1)
         | (Inr (Inr session), w1) \<Rightarrow> turnOnSession e TxCtx w1 session userID userInput)
      w"

section \<open>Output worker (package worker)\<close>












section \<open>Properties as the specification words them\<close>

text \<open>A follow-up field is set when its pointer is non-nil and its text non-empty;
  \<open>customer_name\<close> is set when the customer exists.\<close>

definition field_is_set :: "FollowRecord option \<Rightarrow> (FollowRecord \<Rightarrow> string option) \<Rightarrow> bool" where
  "field_is_set followRecord sel =
    (case followRecord of
       None \<Rightarrow> False
     | Some r \<Rightarrow> (case sel r of None \<Rightarrow> False | Some s \<Rightarrow> s \<noteq> []))"

definition canonical_fields :: "Customer option \<Rightarrow> FollowRecord option \<Rightarrow> (string \<times> bool) list" where
  "canonical_fields customer followRecord =
    [(StateCustomerName, customer \<noteq> None),
     (StateFollowContent, field_is_set followRecord fr_FollowContent),
     (StateFollowGoal, field_is_set followRecord fr_FollowGoal),
     (StateFollowResult, field_is_set followRecord fr_FollowResult),
     (StateNextPlan, field_is_set followRecord fr_NextPlan),
     (StateFollowMethod, field_is_set followRecord fr_FollowMethod)]"

fun first_unsatisfied :: "(string \<times> bool) list \<Rightarrow> string" where
  "first_unsatisfied [] = StateComplete"
| "first_unsatisfied ((state, is_set) # rest) = (if is_set then first_unsatisfied rest else state)"

text \<open>There is nothing to confirm: the focus customer is null, or \<open>pending_updates\<close> holds
  no data for the focus customer.\<close>

definition nothingToConfirm :: "RuntimeContext \<Rightarrow> bool" where
  "nothingToConfirm runtime =
    (case rt_FocusCustomerID runtime of
       None \<Rightarrow> True
     | Some f \<Rightarrow> getData (rt_PendingUpdates runtime) f = [])"


text \<open>What the merge of customers may change: rows of \<open>customers\<close> and of \<open>follow_records\<close>
  are rewritten in place; no row is added or removed, and dialogs, sessions, the open
  transaction and the queue are as before.\<close>

definition rewritesInPlace :: "world \<Rightarrow> world \<Rightarrow> bool" where
  "rewritesInPlace w w' \<longleftrightarrow>
     db_dialogs (w_db w') = db_dialogs (w_db w)
   \<and> db_sessions (w_db w') = db_sessions (w_db w)
   \<and> map fr_ID (db_follow_records (w_db w')) = map fr_ID (db_follow_records (w_db w))
   \<and> map c_ID (db_customers (w_db w')) = map c_ID (db_customers (w_db w))
   \<and> w_tx w' = w_tx w \<and> w_queue w' = w_queue w"




section \<open>Example inputs\<close>

text \<open>
  A customer whose five follow-up fields and follow time are pending, in a session that
  is in \<open>CONFIRMING\<close>; collaborators that never fail, and a confirming user.
\<close>

definition customerA :: uuid where "customerA = ''00000000-0000-0000-0000-00000000000a''"
definition customerB :: uuid where "customerB = ''00000000-0000-0000-0000-00000000000b''"
definition session1 :: uuid where "session1 = ''00000000-0000-0000-0000-0000000000f1''"

definition env0 :: env where
  "env0 =
    \<lparr>dbFails = (\<lambda>call key. False),
     newUUID = (\<lambda>purpose key. ''00000000-0000-0000-0000-0000000000e1''),
     now = 5000,
     parseUUID = (\<lambda>s. Some s),
     parseDate = (\<lambda>s. if s = ''2024-01-02'' then Some 1704153600 else None),
     parseRFC3339 = (\<lambda>s. None),
     formatDate = (\<lambda>t. ''1970-01-01''),
     aiIsCustomerFollowRelated = (\<lambda>s. Some False),
     aiIsUserConfirmation = (\<lambda>s. Some True),
     aiIsUserNoMoreCustomers = (\<lambda>s. Some False),
     aiSemanticAnalysis = (\<lambda>input stage focus field history. None),
     aiGenerateDialogue = (\<lambda>stage focus state input context summary history. Some ''ok''),
     aiSummarizeCustomerInfo = (\<lambda>d. Some ''summary''),
     normalizeEntities = (\<lambda>sid. Some []),
     askingOtherCustomers = ''anyone else?'',
     outputtingConfirm = ''done'',
     outputtingEnded = ''closed'',
     outputtingEndedDefault = ''closed'',
     replyFailedText = ''sorry''\<rparr>"

definition dataA :: fields where
  "dataA =
    [(''follow_content'', JStr ''renewal''),
     (''follow_goal'', JStr ''sign''),
     (''follow_result'', JStr ''agreed''),
     (''next_plan'', JStr ''quote''),
     (''follow_method'', JStr ''phone''),
     (''follow_time'', JStr ''2024-01-02'')]"

definition snapshotA :: RuntimeState where
  "snapshotA =
    \<lparr>rs_SessionID = session1, rs_FocusCustomerID = Some customerA,
     rs_State = StateComplete, rs_Status = StatusConfirming,
     rs_PendingUpdates = Some (marshalPending [(customerA, Some dataA)]),
     rs_PendingReconfirm = False\<rparr>"

definition world0 :: world where
  "world0 =
    \<lparr>w_db =
       \<lparr>db_customers = [\<lparr>c_ID = customerA, c_Name = ''Acme'', c_ContactPerson = None,
                           c_ContactPhone = None, c_ContactRole = None\<rparr>],
        db_sessions = [\<lparr>s_ID = session1, s_UserID = ''u1'', s_Status = StatusConfirming,
                          s_EndedAt = None\<rparr>],
        db_dialogs = [\<lparr>d_ID = ''00000000-0000-0000-0000-0000000000d1'', d_SessionID = session1,
                         d_State = StateComplete, d_Status = StatusConfirming, d_TurnIndex = 1,
                         d_FocusCustomerID = Some customerA, d_IsFirstFocus = True,
                         d_SemanticRelevance = Some SemanticStrong,
                         d_PendingUpdates = marshalPending [(customerA, Some dataA)],
                         d_RuntimeSnapshot = snapshotA,
                         d_TurnContent = Some ''User: hi'', d_CreatedAt = 1000\<rparr>],
        db_follow_records = []\<rparr>,
     w_tx = [], w_queue = []\<rparr>"

definition runtime0 :: RuntimeContext where
  "runtime0 =
    \<lparr>rt_SessionID = session1, rt_TurnIndex = 2, rt_State = StateComplete,
     rt_Status = StatusConfirming, rt_FocusCustomerID = Some customerA,
     rt_MentionedCustomerID = None, rt_SemanticRelevance = [],
     rt_PendingUpdates = [(customerA, Some dataA)], rt_IsFirstFocus = False,
     rt_PendingReconfirm = False\<rparr>"

text \<open>The same database with another snapshot in its one dialog.\<close>

definition worldOf :: "RuntimeState \<Rightarrow> world" where
  "worldOf snapshot =
    \<lparr>w_db =
       \<lparr>db_customers = [\<lparr>c_ID = customerA, c_Name = ''Acme'', c_ContactPerson = None,
                           c_ContactPhone = None, c_ContactRole = None\<rparr>],
        db_sessions = [\<lparr>s_ID = session1, s_UserID = ''u1'', s_Status = StatusConfirming,
                          s_EndedAt = None\<rparr>],
        db_dialogs = [\<lparr>d_ID = ''00000000-0000-0000-0000-0000000000d1'', d_SessionID = session1,
                         d_State = StateComplete, d_Status = StatusConfirming, d_TurnIndex = 1,
                         d_FocusCustomerID = rs_FocusCustomerID snapshot, d_IsFirstFocus = True,
                         d_SemanticRelevance = Some SemanticStrong,
                         d_PendingUpdates = JObj [],
                         d_RuntimeSnapshot = snapshot,
                         d_TurnContent = Some ''User: hi'', d_CreatedAt = 1000\<rparr>],
        db_follow_records = []\<rparr>,
     w_tx = [], w_queue = []\<rparr>"

text \<open>Snapshots in \<open>CONFIRMING\<close> with nothing pending, with and without a focus customer.\<close>

definition snapshotNoData :: "uuid option \<Rightarrow> RuntimeState" where
  "snapshotNoData focus =
    \<lparr>rs_SessionID = session1, rs_FocusCustomerID = focus,
     rs_State = StateComplete, rs_Status = StatusConfirming,
     rs_PendingUpdates = None, rs_PendingReconfirm = False\<rparr>"










text \<open>A snapshot of the legacy shape: \<open>pending_updates\<close> maps fields to values.\<close>

definition flatSnapshot :: "uuid option \<Rightarrow> RuntimeState" where
  "flatSnapshot focus =
    \<lparr>rs_SessionID = ''00000000-0000-0000-0000-0000000000f1'',
     rs_FocusCustomerID = focus,
     rs_State = StateFollowResult, rs_Status = StatusCollecting,
     rs_PendingUpdates = Some (JObj [(''follow_goal'', JStr ''renew''),
                                     (''follow_content'', JStr ''visit'')]),
     rs_PendingReconfirm = False\<rparr>"

section \<open>Theorems\<close>

subsection \<open>Constants\<close>

lemmas state_defs =
  StateCustomerName_def StateFollowMethod_def StateFollowContent_def StateFollowGoal_def
  StateFollowResult_def StateNextPlan_def StateComplete_def

lemmas status_defs =
  StatusCollecting_def StatusAskingOtherCustomers_def StatusConfirming_def
  StatusOutputting_def StatusExit_def

lemma entriesOf_simps [simp]: "entriesOf None = []" "entriesOf (Some d) = d"
  by (simp_all add: entriesOf_def)

text \<open>
  Claim C6.  \<open>DetermineState\<close> returns the state of the first field, in the canonical order
  customer_name, follow_content, follow_goal, follow_result, next_plan, follow_method,
  that is not set, and \<open>COMPLETE\<close> when all are set; it returns \<open>CUSTOMER_NAME\<close> for a nil
  customer and \<open>FOLLOW_CONTENT\<close> for a customer with a nil follow-record.  The customer's
  name counts as set when the customer exists.
\<close>

theorem DetermineState_first_unsatisfied:
  "DetermineState customer followRecord = first_unsatisfied (canonical_fields customer followRecord)
   \<and> DetermineState None followRecord = StateCustomerName
   \<and> DetermineState (Some c) None = StateFollowContent"
  by (simp add: DetermineState_def canonical_fields_def field_is_set_def unset_def
      split: option.splits)

text \<open>
  Claim C7.  \<open>DetermineStatus\<close> returns \<open>ASKING_OTHER_CUSTOMERS\<close> for the empty map,
  \<open>COLLECTING\<close> when some customer's state is not \<open>COMPLETE\<close>, and \<open>CONFIRMING\<close> for a
  non-empty map whose states are all \<open>COMPLETE\<close>.
\<close>

theorem DetermineStatus_cases:
  "(customerStates = [] \<longrightarrow> DetermineStatus customerStates = StatusAskingOtherCustomers)
   \<and> ((\<exists>(customerID, state) \<in> set customerStates. state \<noteq> StateComplete)
        \<longrightarrow> DetermineStatus customerStates = StatusCollecting)
   \<and> (customerStates \<noteq> [] \<and> (\<forall>(customerID, state) \<in> set customerStates. state = StateComplete)
        \<longrightarrow> DetermineStatus customerStates = StatusConfirming)"
  by (auto simp: DetermineStatus_def list_ex_iff)

text \<open>The three cases of C7 on the empty map and on two maps of two customers.\<close>

theorem DetermineStatus_cases_witness:
  "DetermineStatus [] = StatusAskingOtherCustomers
   \<and> DetermineStatus [(''c1'', StateComplete), (''c2'', StateFollowGoal)] = StatusCollecting
   \<and> DetermineStatus [(''c1'', StateComplete), (''c2'', StateComplete)] = StatusConfirming"
  using DetermineStatus_cases [of "[]"]
    DetermineStatus_cases [of "[(''c1'', StateComplete), (''c2'', StateFollowGoal)]"]
    DetermineStatus_cases [of "[(''c1'', StateComplete), (''c2'', StateComplete)]"]
  by (simp add: state_defs)


text \<open>
  Claim C3.  With no mention and no focus, two customers both in \<open>FOLLOW_GOAL\<close>:
  \<open>SelectFocusCustomer\<close> returns the one the map iteration visits first.  Visiting the
  same map in the other order returns the other customer, so the result is neither the
  lexicographically least id nor a function of the map.
\<close>

theorem SelectFocusCustomer_tie_follows_iteration_order:
  "SelectFocusCustomer None None
      [(''00000000-0000-0000-0000-00000000000b'', StateFollowGoal),
       (''00000000-0000-0000-0000-00000000000a'', StateFollowGoal)] StatusCollecting
     = Some ''00000000-0000-0000-0000-00000000000b''
   \<and> SelectFocusCustomer None None
      [(''00000000-0000-0000-0000-00000000000a'', StateFollowGoal),
       (''00000000-0000-0000-0000-00000000000b'', StateFollowGoal)] StatusCollecting
     = Some ''00000000-0000-0000-0000-00000000000a''
   \<and> ''00000000-0000-0000-0000-00000000000a'' < ''00000000-0000-0000-0000-00000000000b''"
  by (simp add: SelectFocusCustomer_def focusStillIncomplete_def stateOrder_def state_defs status_defs)

subsection \<open>Go maps and the legacy encoding of pending updates\<close>

lemma goMap_fold_map_of:
  "map_of (fold (\<lambda>kv m. AList.update (fst kv) (snd kv) m) kvs acc) = map_of (rev kvs @ acc)"
proof (induction kvs arbitrary: acc)
  case Nil
  then show ?case by simp
next
  case (Cons kv kvs)
  then show ?case by (cases kv) (simp add: update_conv' map_add_def fun_eq_iff split: option.splits)
qed

lemma map_of_goMap: "map_of (goMap kvs) = map_of (rev kvs)"
  by (simp add: goMap_def goMap_fold_map_of)

lemma goMap_fold_distinct:
  "distinct (map fst acc) \<Longrightarrow>
   distinct (map fst (fold (\<lambda>kv m. AList.update (fst kv) (snd kv) m) kvs acc))"
  by (induction kvs arbitrary: acc) (simp_all add: distinct_update)

lemma distinct_goMap: "distinct (map fst (goMap kvs))"
  by (simp add: goMap_def goMap_fold_distinct)

lemma goMap_fold_nonempty:
  "acc \<noteq> [] \<Longrightarrow> fold (\<lambda>kv m. AList.update (fst kv) (snd kv) m) kvs acc \<noteq> []"
  by (induction kvs arbitrary: acc) simp_all

lemma goMap_Nil_iff: "goMap kvs = [] \<longleftrightarrow> kvs = []"
  by (cases kvs) (simp_all add: goMap_def goMap_fold_nonempty)

lemma distinct_map_insort_key:
  "distinct (map f (insort_key f x xs)) \<longleftrightarrow> f x \<notin> f ` set xs \<and> distinct (map f xs)"
  by (induction xs) (auto simp: set_insort_key)

lemma distinct_map_sort_key:
  "distinct (map f (sort_key f xs)) \<longleftrightarrow> distinct (map f xs)"
  by (induction xs) (simp_all add: distinct_map_insort_key)

lemma map_of_sort_key_fst:
  assumes d: "distinct (map fst xs)"
  shows "map_of (sort_key fst xs) = map_of xs"
proof (rule ext)
  fix k
  have d': "distinct (map fst (sort_key fst xs))"
    using d by (simp add: distinct_map_sort_key)
  show "map_of (sort_key fst xs) k = map_of xs k"
  proof (cases "map_of xs k")
    case None
    then have "k \<notin> fst ` set xs" by (simp add: map_of_eq_None_iff)
    then have "k \<notin> fst ` set (sort_key fst xs)" by simp
    then have "map_of (sort_key fst xs) k = None" by (simp add: map_of_eq_None_iff)
    then show ?thesis using None by simp
  next
    case (Some v)
    then have "(k, v) \<in> set xs" by (rule map_of_SomeD)
    then have "(k, v) \<in> set (sort_key fst xs)" by simp
    then show ?thesis using Some d' by simp
  qed
qed

lemma map_of_rev_distinct:
  assumes d: "distinct (map fst xs)"
  shows "map_of (rev xs) = map_of xs"
proof (rule ext)
  fix k
  have d': "distinct (map fst (rev xs))" using d by (simp add: rev_map [symmetric])
  show "map_of (rev xs) k = map_of xs k"
  proof (cases "map_of xs k")
    case None
    then have "k \<notin> fst ` set xs" by (simp add: map_of_eq_None_iff)
    then have "k \<notin> fst ` set (rev xs)" by simp
    then have "map_of (rev xs) k = None" by (simp add: map_of_eq_None_iff)
    then show ?thesis using None by simp
  next
    case (Some v)
    then have "(k, v) \<in> set (rev xs)" using map_of_SomeD by fastforce
    then show ?thesis using Some d' by simp
  qed
qed

lemma goMap_single: "goMap [(k, v)] = [(k, v)]"
  by (simp add: goMap_def)

lemma triples_single: "triples [(c, Some d)] = {(c', f, v). c' = c \<and> map_of d f = Some v}"
  by (auto simp: triples_def split: if_splits)

lemma load_flat:
  assumes raw: "rs_PendingUpdates snapshot = Some (JObj kvs)"
    and notnested: "unmarshalNested (JObj kvs) = None"
    and focus: "rs_FocusCustomerID snapshot = Some c"
  shows "loadPendingUpdatesFromSnapshot snapshot = [(c, Some (goMap kvs))]"
    and "worker_loadPendingUpdatesFromSnapshot snapshot = [(c, Some (goMap kvs))]"
proof -
  have ne: "kvs \<noteq> []" using notnested by (auto simp: unmarshalNested_def)
  then have g: "goMap kvs \<noteq> []" by (simp add: goMap_Nil_iff)
  show "loadPendingUpdatesFromSnapshot snapshot = [(c, Some (goMap kvs))]"
    using raw notnested focus g
    by (simp add: loadPendingUpdatesFromSnapshot_def unmarshalFlat_def)
  show "worker_loadPendingUpdatesFromSnapshot snapshot = [(c, Some (goMap kvs))]"
    using raw notnested focus g
    by (simp add: worker_loadPendingUpdatesFromSnapshot_def unmarshalFlat_def)
qed

lemma reload_single:
  assumes "rs_PendingUpdates snapshot' = Some (marshalPending [(c, Some d)])"
  shows "loadPendingUpdatesFromSnapshot snapshot' = [(c, Some (goMap (sort_key fst d)))]"
    and "worker_loadPendingUpdatesFromSnapshot snapshot' = [(c, Some (goMap (sort_key fst d)))]"
  using assms
  by (simp_all add: loadPendingUpdatesFromSnapshot_def worker_loadPendingUpdatesFromSnapshot_def
      marshalPending_def marshalInner_def marshalFields_def unmarshalNested_def isObjOrNull_def
      innerMap_def goMap_single)

lemma triples_reload:
  assumes "distinct (map fst d)"
  shows "triples [(c, Some (goMap (sort_key fst d)))] = triples [(c, Some d)]"
proof -
  have "map_of (goMap (sort_key fst d)) = map_of d"
    using assms
    by (simp add: map_of_goMap map_of_rev_distinct distinct_map_sort_key map_of_sort_key_fst)
  then show ?thesis by (simp add: triples_single)
qed

text \<open>
  The two loaders on a snapshot whose \<open>pending_updates\<close> is a JSON object that does not
  decode as the nested map (some member is neither an object nor null) and whose
  \<open>focus_customer_id\<close> is not null: each returns the flat map keyed under the focus
  customer.  Its triples are the members of the object (the last of a repeated key)
  under that customer, and the returned map marshalled into a snapshot and handed to
  the loaders again has the same triples.
\<close>

lemma flat_pending_rekeyed_by_loaders:
  assumes raw: "rs_PendingUpdates snapshot = Some (JObj kvs)"
    and notnested: "unmarshalNested (JObj kvs) = None"
    and focus: "rs_FocusCustomerID snapshot = Some c"
    and reloaded: "rs_PendingUpdates snapshot' =
        Some (marshalPending (loadPendingUpdatesFromSnapshot snapshot))"
  shows "loadPendingUpdatesFromSnapshot snapshot = [(c, Some (goMap kvs))]
    \<and> worker_loadPendingUpdatesFromSnapshot snapshot = [(c, Some (goMap kvs))]
    \<and> triples (loadPendingUpdatesFromSnapshot snapshot) =
        {(c', f, v). c' = c \<and> map_of (rev kvs) f = Some v}
    \<and> triples (loadPendingUpdatesFromSnapshot snapshot') =
        triples (loadPendingUpdatesFromSnapshot snapshot)
    \<and> triples (worker_loadPendingUpdatesFromSnapshot snapshot') =
        triples (loadPendingUpdatesFromSnapshot snapshot)"
proof -
  note l = load_flat [OF raw notnested focus]
  have r: "rs_PendingUpdates snapshot' = Some (marshalPending [(c, Some (goMap kvs))])"
    using reloaded l by simp
  show ?thesis
    using l reload_single [OF r] triples_reload [OF distinct_goMap, of c kvs]
    by (simp add: triples_single map_of_goMap)
qed


text \<open>With a null \<open>focus_customer_id\<close> the loaders have no customer to key the flat map
  under and return the empty map.\<close>

lemma flat_pending_without_focus_is_dropped:
  "unmarshalFlat (JObj [(''follow_goal'', JStr ''renew''), (''follow_content'', JStr ''visit'')])
     = Some [(''follow_goal'', JStr ''renew''), (''follow_content'', JStr ''visit'')]
   \<and> unmarshalNested (JObj [(''follow_goal'', JStr ''renew''), (''follow_content'', JStr ''visit'')])
     = None
   \<and> loadPendingUpdatesFromSnapshot (flatSnapshot None) = []
   \<and> worker_loadPendingUpdatesFromSnapshot (flatSnapshot None) = []
   \<and> triples (loadPendingUpdatesFromSnapshot (flatSnapshot None)) = {}"
  by (simp add: flatSnapshot_def loadPendingUpdatesFromSnapshot_def
      worker_loadPendingUpdatesFromSnapshot_def unmarshalFlat_def unmarshalNested_def
      isObjOrNull_def goMap_def triples_def)

subsection \<open>Stage recomputation\<close>

lemmas example_defs =
  env0_def world0_def runtime0_def dataA_def snapshotA_def customerA_def customerB_def session1_def

lemma DetermineStatus_asking_iff:
  "DetermineStatus customerStates = StatusAskingOtherCustomers \<longleftrightarrow> customerStates = []"
  by (simp add: DetermineStatus_def status_defs)







text \<open>Inside \<open>recalculateStates\<close> the derived stage is \<open>ASKING_OTHER_CUSTOMERS\<close> for the empty
  map only, so there the stage is always the derived one.\<close>

lemma recalculateStates_stage_is_derived:
  assumes "recalculateStates e c w runtime = Inr runtime'"
    and "getAllCustomerStates e c w runtime = Inr customerStates"
  shows "rt_Status runtime' = DetermineStatus customerStates"
  using assms
  by (auto simp: recalculateStates_def recalcStatus_def Let_def DetermineStatus_asking_iff)



subsection \<open>Corrections in the confirming stage\<close>

lemma getData_update_same [simp]: "getData (AList.update k (Some d) m) k = d"
  by (simp add: getData_def entriesOf_def update_conv')

lemma getData_setField_same: "getData (setField m k f v) k = AList.update f v (getData m k)"
  by (simp add: setField_def)

lemma map_of_setField_same: "map_of (getData (setField m k f v) k) f = Some v"
  by (simp add: getData_setField_same update_conv')















subsection \<open>The record emitted on confirmation\<close>

lemma applyCollected_keeps:
  "fr_CustomerID (applyCollected e kv r) = fr_CustomerID r"
  "fr_CustomerName (applyCollected e kv r) = fr_CustomerName r"
  by (simp_all add: applyCollected_def Let_def split: option.splits)

lemma fold_applyCollected_keeps:
  "fr_CustomerID (fold (applyCollected e) data r) = fr_CustomerID r"
  "fr_CustomerName (fold (applyCollected e) data r) = fr_CustomerName r"
  by (induction data arbitrary: r) (simp_all add: applyCollected_keeps)

lemma GetCustomer_found:
  "GetCustomer e c w customerID = Inr (Some customer) \<Longrightarrow> c_ID customer = customerID"
  by (auto simp: GetCustomer_def find_Some_iff split: if_splits)

text \<open>
  Claim C1.  Whenever \<open>saveConfirmedCustomerAndTransition\<close> succeeds, the one statement it
  has executed inserts a follow record of the focus customer whose \<open>follow_time\<close> is the
  result of \<open>getFirstFocusTimeForCustomer\<close>: the time parsed from the pending
  \<open>follow_time\<close> by \<open>buildFollowRecordFromCollectedData\<close> is overwritten.
\<close>

theorem confirmed_record_follow_time_is_first_focus_time:
  assumes "saveConfirmedCustomerAndTransition e c w runtime userID = (Inr runtime', w')"
  shows "\<exists>customerID followRecord.
           rt_FocusCustomerID runtime = Some customerID
         \<and> w' = exec c (InsertFollowRecord followRecord) w
         \<and> fr_CustomerID followRecord = customerID
         \<and> fr_UserID followRecord = userID
         \<and> fr_FollowTime followRecord =
             getFirstFocusTimeForCustomer e c w (rt_SessionID runtime) customerID"
proof -
  obtain customerID where fo: "rt_FocusCustomerID runtime = Some customerID"
    using assms by (auto simp: saveConfirmedCustomerAndTransition_def split: option.splits)
  let ?data = "getData (rt_PendingUpdates runtime) customerID"
  have ne: "length ?data \<noteq> 0"
    using assms fo by (auto simp: saveConfirmedCustomerAndTransition_def Let_def split: if_splits)
  obtain customer where cu: "GetCustomer e c w customerID = Inr (Some customer)"
    using assms fo ne
    by (auto simp: saveConfirmedCustomerAndTransition_def Let_def split: sum.splits option.splits)
  let ?built = "fold (applyCollected e) ?data (newFollowRecord e customer)"
  let ?fr = "?built\<lparr>fr_FollowTime := getFirstFocusTimeForCustomer e c w (rt_SessionID runtime) customerID,
                     fr_UserID := userID, fr_ID := newUUID e ''follow_record'' customerID\<rparr>"
  have w': "w' = exec c (InsertFollowRecord ?fr) w"
    using assms fo ne cu
    by (auto simp: saveConfirmedCustomerAndTransition_def Let_def
        buildFollowRecordFromCollectedData_def CreateFollowRecord_def
        split: sum.splits if_splits)
  have id: "fr_CustomerID ?fr = customerID"
    using GetCustomer_found [OF cu]
    by (simp add: fold_applyCollected_keeps newFollowRecord_def)
  show ?thesis using fo w' id by (intro exI [of _ customerID] exI [of _ ?fr]) simp
qed

lemma built0:
  "buildFollowRecordFromCollectedData env0
     (Some \<lparr>c_ID = customerA, c_Name = ''Acme'', c_ContactPerson = None,
            c_ContactPhone = None, c_ContactRole = None\<rparr>) dataA
   = Some \<lparr>fr_ID = uuid_Nil, fr_UserID = [], fr_CustomerID = customerA, fr_CustomerName = ''Acme'',
          fr_ContactPerson = None, fr_ContactPhone = None, fr_ContactRole = None,
          fr_FollowTime = 1704153600, fr_FollowMethod = Some ''phone'',
          fr_FollowContent = Some ''renewal'', fr_FollowGoal = Some ''sign'',
          fr_FollowResult = Some ''agreed'', fr_RiskContent = None, fr_NextPlan = Some ''quote''\<rparr>"
  by (simp add: buildFollowRecordFromCollectedData_def newFollowRecord_def applyCollected_def
      dataA_def env0_def Let_def)

lemma firstFocus0:
  "getFirstFocusTimeForCustomer env0 TxCtx world0 session1 customerA = 1000"
  by (simp add: getFirstFocusTimeForCustomer_def GetDialogsBySession_def getExecer_def
      world0_def env0_def)


text \<open>
  On the example, the pending \<open>follow_time\<close> is the text 2024-01-02, which parses, and the
  record built from the pending data carries the parsed time; the record inserted
  carries 1000, the creation time of the first-focus dialog.
\<close>

theorem confirmed_record_follow_time_is_first_focus_time_witness:
  "nonNil (getData (rt_PendingUpdates runtime0) customerA) ''follow_time'' = Some (JStr ''2024-01-02'')
   \<and> parseDate env0 ''2024-01-02'' = Some 1704153600
   \<and> map_option fr_FollowTime
        (buildFollowRecordFromCollectedData env0
           (Some \<lparr>c_ID = customerA, c_Name = ''Acme'', c_ContactPerson = None,
                  c_ContactPhone = None, c_ContactRole = None\<rparr>)
           (getData (rt_PendingUpdates runtime0) customerA)) = Some 1704153600
   \<and> (\<exists>r followRecord.
         saveConfirmedCustomerAndTransition env0 TxCtx world0 runtime0 ''u1''
           = (Inr r, world0\<lparr>w_tx := [InsertFollowRecord followRecord]\<rparr>)
         \<and> fr_CustomerID followRecord = customerA
         \<and> fr_FollowTime followRecord = 1000)"
proof -
  have d: "getData (rt_PendingUpdates runtime0) customerA = dataA"
    by (simp add: runtime0_def getData_def)
  have g: "GetCustomer env0 TxCtx world0 customerA =
             Inr (Some \<lparr>c_ID = customerA, c_Name = ''Acme'', c_ContactPerson = None,
                        c_ContactPhone = None, c_ContactRole = None\<rparr>)"
    by (simp add: GetCustomer_def getExecer_def world0_def env0_def)
  have nf: "\<not> dbFails env0 ''CreateFollowRecord'' customerA" by (simp add: env0_def)
  obtain r w' where run:
    "saveConfirmedCustomerAndTransition env0 TxCtx world0 runtime0 ''u1'' = (Inr r, w')"
    using d g built0 nf
    by (simp add: saveConfirmedCustomerAndTransition_def Let_def CreateFollowRecord_def
        recalculateStates_def getAllCustomerStates_def customerIDsOf_def List.map_filter_def
        runtime0_def dataA_def)
  obtain cid fr where f:
    "rt_FocusCustomerID runtime0 = Some cid"
    "w' = exec TxCtx (InsertFollowRecord fr) world0"
    "fr_CustomerID fr = cid"
    "fr_FollowTime fr = getFirstFocusTimeForCustomer env0 TxCtx world0 (rt_SessionID runtime0) cid"
    using confirmed_record_follow_time_is_first_focus_time [OF run] by blast
  have cid: "cid = customerA" using f(1) by (simp add: runtime0_def)
  have w': "w' = world0\<lparr>w_tx := [InsertFollowRecord fr]\<rparr>"
    using f(2) by (simp add: exec_def world0_def)
  have t: "fr_FollowTime fr = 1000"
    using f(4) cid firstFocus0 by (simp add: runtime0_def)
  have n: "nonNil dataA ''follow_time'' = Some (JStr ''2024-01-02'')"
    by (simp add: nonNil_def dataA_def)
  show ?thesis
    using run w' t f(3) cid d n built0 by (auto simp: env0_def)
qed

subsection \<open>A confirmation with nothing to confirm\<close>

lemma exec_TxCtx_frame [simp]:
  "w_db (exec TxCtx st w) = w_db w" "w_queue (exec TxCtx st w) = w_queue w"
  by (simp_all add: exec_def)

lemma loadOrCreateSession_frame:
  "loadOrCreateSession e TxCtx w userID = (res, w1) \<Longrightarrow> w_db w1 = w_db w \<and> w_queue w1 = w_queue w"
  by (auto simp: loadOrCreateSession_def CreateSession_def Let_def
      split: sum.splits option.splits if_splits)

lemma leaveOutputting_frame:
  "leaveOutputting e TxCtx w session userID userInput = (res, w1)
     \<Longrightarrow> w_db w1 = w_db w \<and> w_queue w1 = w_queue w"
  by (auto simp: leaveOutputting_def CreateSession_def UpdateSession_def Let_def
      split: sum.splits option.splits if_splits)

lemma turnSession_frame:
  assumes "turnSession e TxCtx w userID userInput = (res, w1)"
  shows "w_db w1 = w_db w \<and> w_queue w1 = w_queue w"
proof -
  obtain r0 w0 where l: "loadOrCreateSession e TxCtx w userID = (r0, w0)" by (metis prod.exhaust)
  note f0 = loadOrCreateSession_frame [OF l]
  show ?thesis
  proof (cases r0)
    case (Inl err)
    then show ?thesis using assms l f0 by (simp add: turnSession_def)
  next
    case (Inr session)
    show ?thesis
    proof (cases "s_Status session = StatusOutputting")
      case True
      then have "leaveOutputting e TxCtx w0 session userID userInput = (res, w1)"
        using assms l Inr by (simp add: turnSession_def)
      then show ?thesis using leaveOutputting_frame f0 by metis
    next
      case False
      then show ?thesis using assms l Inr f0 by (simp add: turnSession_def)
    qed
  qed
qed

lemma save_nothing_fails:
  assumes ntc: "nothingToConfirm runtime"
  shows "\<exists>err. saveConfirmedCustomerAndTransition e c w runtime userID = (Inl err, w)"
  using ntc
  by (auto simp: saveConfirmedCustomerAndTransition_def nothingToConfirm_def Let_def
      split: option.splits)

lemma processWithRuleEngine_confirmed:
  assumes st: "rt_Status runtime = StatusConfirming"
    and conf: "aiIsUserConfirmation e userInput = Some True"
  shows "processWithRuleEngine e c w runtime semanticResult userInput userID =
           saveConfirmedCustomerAndTransition e c w (ensureFocusWhenPending e c w runtime) userID"
  using st conf by (simp add: processWithRuleEngine_def Let_def)

lemma turnOnSession_nothing_fails:
  assumes load: "loadLatestRuntime e c w (s_ID session) = Inr loaded"
    and st: "rt_Status loaded = StatusConfirming"
    and conf: "aiIsUserConfirmation e userInput = Some True"
    and ntc: "nothingToConfirm
        (ensureFocusWhenPending e c w (loaded\<lparr>rt_TurnIndex := rt_TurnIndex loaded + 1\<rparr>))"
  shows "\<exists>err. turnOnSession e c w session userID userInput = (Inl err, w)"
proof -
  let ?rt = "loaded\<lparr>rt_TurnIndex := rt_TurnIndex loaded + 1\<rparr>"
  have st': "rt_Status ?rt = StatusConfirming" using st by simp
  obtain err where
    s: "saveConfirmedCustomerAndTransition e c w (ensureFocusWhenPending e c w ?rt) userID
          = (Inl err, w)"
    using save_nothing_fails [OF ntc] by blast
  show ?thesis
    using load s
    by (simp add: turnOnSession_def Let_def processWithRuleEngine_confirmed [OF st' conf])
qed

text \<open>
  Claim C10.  Let the turn work on a session whose latest snapshot is in \<open>CONFIRMING\<close>, let
  the utterance be classified as a confirmation, and let, after the focus recovery of
  \<open>ensureFocusWhenPending\<close>, the focus customer be null or \<open>pending_updates\<close> hold no data
  for it.  Then \<open>ProcessTurn\<close> returns an error, and the committed database and the task
  queue are what they were before the turn: no dialog row and no follow record is
  persisted.
\<close>

theorem confirmation_with_nothing_to_confirm_fails:
  assumes sess: "turnSession e TxCtx (w\<lparr>w_tx := []\<rparr>) userID userInput = (Inr (Inr session), w1)"
    and load: "loadLatestRuntime e TxCtx w1 (s_ID session) = Inr loaded"
    and st: "rt_Status loaded = StatusConfirming"
    and conf: "aiIsUserConfirmation e userInput = Some True"
    and ntc: "nothingToConfirm
        (ensureFocusWhenPending e TxCtx w1 (loaded\<lparr>rt_TurnIndex := rt_TurnIndex loaded + 1\<rparr>))"
  shows "\<exists>err w'. ProcessTurn e w userID userInput = (Inl err, w')
           \<and> w_db w' = w_db w \<and> w_queue w' = w_queue w"
proof (cases "dbFails e ''BeginTxx'' []")
  case True
  then show ?thesis by (simp add: ProcessTurn_def WithTx_def)
next
  case False
  obtain err where t: "turnOnSession e TxCtx w1 session userID userInput = (Inl err, w1)"
    using turnOnSession_nothing_fails [OF load st conf ntc] by blast
  have f: "w_db w1 = w_db w \<and> w_queue w1 = w_queue w"
    using turnSession_frame [OF sess] by simp
  show ?thesis
    using False sess t f by (simp add: ProcessTurn_def WithTx_def)
qed


lemma turnSession_example:
  "turnSession env0 TxCtx ((worldOf snapshot)\<lparr>w_tx := []\<rparr>) ''u1'' ''yes''
     = (Inr (Inr \<lparr>s_ID = session1, s_UserID = ''u1'', s_Status = StatusConfirming,
                    s_EndedAt = None\<rparr>), worldOf snapshot)"
  by (simp add: turnSession_def loadOrCreateSession_def GetActiveSession_def getExecer_def
      worldOf_def env0_def status_defs)

lemma loadLatestRuntime_example:
  "loadLatestRuntime env0 TxCtx (worldOf (snapshotNoData focus)) session1
     = Inr \<lparr>rt_SessionID = session1, rt_TurnIndex = 1, rt_State = StateComplete,
            rt_Status = StatusConfirming, rt_FocusCustomerID = focus,
            rt_MentionedCustomerID = None, rt_SemanticRelevance = [],
            rt_PendingUpdates = [], rt_IsFirstFocus = False, rt_PendingReconfirm = False\<rparr>"
  by (simp add: loadLatestRuntime_def GetLatestDialog_def getExecer_def lastOption_def
      worldOf_def env0_def snapshotNoData_def loadPendingUpdatesFromSnapshot_def Let_def)

text \<open>C10 on a session whose snapshot has a focus customer and nothing pending, and on one
  whose snapshot has no focus customer: both turns load a \<open>CONFIRMING\<close> runtime and fail.\<close>

theorem confirmation_with_nothing_to_confirm_fails_witness:
  "aiIsUserConfirmation env0 ''yes'' = Some True
   \<and> (\<exists>loaded. loadLatestRuntime env0 TxCtx (worldOf (snapshotNoData (Some customerA))) session1
                   = Inr loaded
        \<and> rt_Status loaded = StatusConfirming
        \<and> rt_FocusCustomerID loaded = Some customerA \<and> rt_PendingUpdates loaded = [])
   \<and> (\<exists>err w'. ProcessTurn env0 (worldOf (snapshotNoData (Some customerA))) ''u1'' ''yes''
                   = (Inl err, w')
        \<and> w_db w' = w_db (worldOf (snapshotNoData (Some customerA))))
   \<and> (\<exists>loaded. loadLatestRuntime env0 TxCtx (worldOf (snapshotNoData None)) session1 = Inr loaded
        \<and> rt_Status loaded = StatusConfirming \<and> rt_FocusCustomerID loaded = None)
   \<and> (\<exists>err w'. ProcessTurn env0 (worldOf (snapshotNoData None)) ''u1'' ''yes'' = (Inl err, w')
        \<and> w_db w' = w_db (worldOf (snapshotNoData None)))"
proof -
  have conf: "aiIsUserConfirmation env0 ''yes'' = Some True" by (simp add: env0_def)
  have p: "\<exists>err w'. ProcessTurn env0 (worldOf (snapshotNoData focus)) ''u1'' ''yes'' = (Inl err, w')
             \<and> w_db w' = w_db (worldOf (snapshotNoData focus))
             \<and> w_queue w' = w_queue (worldOf (snapshotNoData focus))"
    if "focus = None \<or> focus = Some customerA" for focus
  proof -
    let ?w = "worldOf (snapshotNoData focus)"
    let ?s = "\<lparr>s_ID = session1, s_UserID = ''u1'', s_Status = StatusConfirming, s_EndedAt = None\<rparr>"
    let ?l = "\<lparr>rt_SessionID = session1, rt_TurnIndex = 1, rt_State = StateComplete,
            rt_Status = StatusConfirming, rt_FocusCustomerID = focus,
            rt_MentionedCustomerID = None, rt_SemanticRelevance = [],
            rt_PendingUpdates = [], rt_IsFirstFocus = False, rt_PendingReconfirm = False\<rparr>"
    have sess: "turnSession env0 TxCtx (?w\<lparr>w_tx := []\<rparr>) ''u1'' ''yes'' = (Inr (Inr ?s), ?w)"
      by (rule turnSession_example)
    have load: "loadLatestRuntime env0 TxCtx ?w (s_ID ?s) = Inr ?l"
      using loadLatestRuntime_example [of focus] by simp
    have st: "rt_Status ?l = StatusConfirming" by simp
    have ntc: "nothingToConfirm
        (ensureFocusWhenPending env0 TxCtx ?w (?l\<lparr>rt_TurnIndex := rt_TurnIndex ?l + 1\<rparr>))"
      by (simp add: nothingToConfirm_def ensureFocusWhenPending_def getData_def
          split: option.splits)
    show ?thesis
      by (rule confirmation_with_nothing_to_confirm_fails [OF sess load st conf ntc])
  qed
  show ?thesis
    using conf p [of None] p [of "Some customerA"]
    by (simp add: loadLatestRuntime_example) blast
qed

subsection \<open>Loading a legacy snapshot\<close>

text \<open>
  Claim C8.  Let the latest dialog of the session a turn works on hold a snapshot whose
  \<open>pending_updates\<close> is a JSON object that does not decode as the nested map: the legacy
  flat map from field to value.  \<open>loadPendingUpdatesFromSnapshot\<close> keys the flat map under
  the focus customer of the snapshot, but \<open>loadLatestRuntime\<close> then decodes the snapshot
  into \<open>models.RuntimeState\<close> and returns the error of that decoding; \<open>ProcessTurn\<close> fails
  with it and leaves the database and the queue as they were.  The orchestrator never
  loads such a snapshot.
\<close>

theorem legacy_flat_snapshot_fails_to_load:
  assumes tx: "\<not> dbFails e ''BeginTxx'' []"
    and sess: "turnSession e TxCtx (w\<lparr>w_tx := []\<rparr>) userID userInput = (Inr (Inr session), w1)"
    and latest: "GetLatestDialog e TxCtx w1 (s_ID session) = Inr (Some dialog)"
    and raw: "rs_PendingUpdates (d_RuntimeSnapshot dialog) = Some (JObj kvs)"
    and notnested: "unmarshalNested (JObj kvs) = None"
  shows "loadLatestRuntime e TxCtx w1 (s_ID session)
           = Inl (Err ''failed to unmarshal runtime snapshot'')
    \<and> (\<exists>w'. ProcessTurn e w userID userInput
               = (Inl (Err ''failed to unmarshal runtime snapshot''), w')
          \<and> w_db w' = w_db w \<and> w_queue w' = w_queue w)
    \<and> (\<forall>focus. rs_FocusCustomerID (d_RuntimeSnapshot dialog) = Some focus \<longrightarrow>
          loadPendingUpdatesFromSnapshot (d_RuntimeSnapshot dialog) = [(focus, Some (goMap kvs))])"
proof -
  have l: "loadLatestRuntime e TxCtx w1 (s_ID session)
             = Inl (Err ''failed to unmarshal runtime snapshot'')"
    using latest raw notnested by (simp add: loadLatestRuntime_def Let_def)
  then have t: "turnOnSession e TxCtx w1 session userID userInput
                  = (Inl (Err ''failed to unmarshal runtime snapshot''), w1)"
    by (simp add: turnOnSession_def)
  have f: "w_db w1 = w_db w \<and> w_queue w1 = w_queue w"
    using turnSession_frame [OF sess] by simp
  have p: "\<exists>w'. ProcessTurn e w userID userInput
               = (Inl (Err ''failed to unmarshal runtime snapshot''), w')
          \<and> w_db w' = w_db w \<and> w_queue w' = w_queue w"
    using tx sess t f by (simp add: ProcessTurn_def WithTx_def)
  have k: "\<forall>focus. rs_FocusCustomerID (d_RuntimeSnapshot dialog) = Some focus \<longrightarrow>
          loadPendingUpdatesFromSnapshot (d_RuntimeSnapshot dialog) = [(focus, Some (goMap kvs))]"
    using load_flat(1) [OF raw notnested] by blast
  show ?thesis using l p k by blast
qed

text \<open>C8 on a session whose one dialog holds the flat map of two fields and the focus
  customer: the turn fails, though the flat map has been keyed under the customer.\<close>

theorem legacy_flat_snapshot_fails_to_load_witness:
  "unmarshalFlat (JObj [(''follow_goal'', JStr ''renew''), (''follow_content'', JStr ''visit'')])
     = Some [(''follow_goal'', JStr ''renew''), (''follow_content'', JStr ''visit'')]
   \<and> loadPendingUpdatesFromSnapshot (flatSnapshot (Some customerA))
     = [(customerA, Some [(''follow_goal'', JStr ''renew''), (''follow_content'', JStr ''visit'')])]
   \<and> loadLatestRuntime env0 TxCtx (worldOf (flatSnapshot (Some customerA))) session1
     = Inl (Err ''failed to unmarshal runtime snapshot'')
   \<and> (\<exists>w'. ProcessTurn env0 (worldOf (flatSnapshot (Some customerA))) ''u1'' ''yes''
              = (Inl (Err ''failed to unmarshal runtime snapshot''), w')
         \<and> w_db w' = w_db (worldOf (flatSnapshot (Some customerA))))"
proof -
  let ?kvs = "[(''follow_goal'', JStr ''renew''), (''follow_content'', JStr ''visit'')]"
  let ?snap = "flatSnapshot (Some customerA)"
  let ?w = "worldOf ?snap"
  let ?s = "\<lparr>s_ID = session1, s_UserID = ''u1'', s_Status = StatusConfirming, s_EndedAt = None\<rparr>"
  let ?d = "\<lparr>d_ID = ''00000000-0000-0000-0000-0000000000d1'', d_SessionID = session1,
             d_State = StateComplete, d_Status = StatusConfirming, d_TurnIndex = 1,
             d_FocusCustomerID = rs_FocusCustomerID ?snap, d_IsFirstFocus = True,
             d_SemanticRelevance = Some SemanticStrong,
             d_PendingUpdates = JObj [],
             d_RuntimeSnapshot = ?snap,
             d_TurnContent = Some ''User: hi'', d_CreatedAt = 1000\<rparr>"
  have tx: "\<not> dbFails env0 ''BeginTxx'' []" by (simp add: env0_def)
  have sess: "turnSession env0 TxCtx (?w\<lparr>w_tx := []\<rparr>) ''u1'' ''yes'' = (Inr (Inr ?s), ?w)"
    by (rule turnSession_example)
  have latest: "GetLatestDialog env0 TxCtx ?w (s_ID ?s) = Inr (Some ?d)"
    by (simp add: GetLatestDialog_def getExecer_def lastOption_def worldOf_def env0_def)
  have raw: "rs_PendingUpdates (d_RuntimeSnapshot ?d) = Some (JObj ?kvs)"
    by (simp add: flatSnapshot_def)
  have nn: "unmarshalNested (JObj ?kvs) = None"
    by (simp add: unmarshalNested_def isObjOrNull_def)
  have fo: "rs_FocusCustomerID (d_RuntimeSnapshot ?d) = Some customerA"
    by (simp add: flatSnapshot_def)
  have gm: "goMap ?kvs = ?kvs" by (simp add: goMap_def)
  have uf: "unmarshalFlat (JObj ?kvs) = Some ?kvs"
    by (simp add: unmarshalFlat_def gm)
  note th = legacy_flat_snapshot_fails_to_load [OF tx sess latest raw nn]
  have l: "loadLatestRuntime env0 TxCtx ?w session1
             = Inl (Err ''failed to unmarshal runtime snapshot'')"
    using th by simp
  have p: "\<exists>w'. ProcessTurn env0 ?w ''u1'' ''yes''
              = (Inl (Err ''failed to unmarshal runtime snapshot''), w')
         \<and> w_db w' = w_db ?w"
    using th by blast
  have k: "loadPendingUpdatesFromSnapshot ?snap = [(customerA, Some ?kvs)]"
    using th fo gm by simp
  show ?thesis using uf k l p by blast
qed

subsection \<open>The output task\<close>

text \<open>Steps 1 and 2 of \<open>processTask\<close> rewrite rows in place, whatever fails in them.\<close>

lemma rewritesInPlace_refl [simp]: "rewritesInPlace w w"
  by (simp add: rewritesInPlace_def)


lemma fr_ID_updateFollowRow [simp]: "fr_ID (updateFollowRow new old) = fr_ID old"
  by (simp add: updateFollowRow_def)





















end
